theory Spec2Isabelle
  imports Complex_Main "HOL-Library.AList" "HOL-Library.Sublist"
begin

section \<open>Python values\<close>

text \<open>
  The values that flow through \<^verbatim>\<open>sensor.py\<close>: what \<^verbatim>\<open>json.loads\<close> produces
  (\<^verbatim>\<open>None\<close>, booleans, integers, floats, strings, lists, objects) and the
  \<^verbatim>\<open>datetime\<close> stored under \<^verbatim>\<open>sampleTime\<close>.  A Python \<^verbatim>\<open>dict\<close> is an association
  list read with \<open>map_of\<close>; the order of its keys is never observed by the code.
  A Python float is modelled by the real number it denotes; the binary rounding of
  IEEE arithmetic is not part of the model.  A \<^verbatim>\<open>datetime\<close> is a number of
  microseconds.
\<close>

type_synonym time = int

datatype pyval =
    PNone
  | PBool bool
  | PInt int
  | PFloat real
  | PStr string
  | PList "pyval list"
  | PDict "(string \<times> pyval) list"
  | PTime time

type_synonym dict = "(string \<times> pyval) list"

text \<open>The exceptions of the source, as values.\<close>

datatype error =
    ClientError
  | TimeoutError
  | OtherException
  | KeyError
  | IndexError
  | TypeError
  | AttributeError
  | ValueError
  | StopIteration
  | RuntimeError

text \<open>\<^verbatim>\<open>if x:\<close>\<close>

fun truthy :: "pyval \<Rightarrow> bool" where
  "truthy PNone = False"
| "truthy (PBool b) = b"
| "truthy (PInt i) = (i \<noteq> 0)"
| "truthy (PFloat x) = (x \<noteq> 0)"
| "truthy (PStr s) = (s \<noteq> [])"
| "truthy (PList xs) = (xs \<noteq> [])"
| "truthy (PDict d) = (d \<noteq> [])"
| "truthy (PTime t) = True"

text \<open>\<^verbatim>\<open>d.get(k, default)\<close> on a dict.\<close>

definition dict_get :: "dict \<Rightarrow> string \<Rightarrow> pyval \<Rightarrow> pyval" where
  "dict_get d k dflt = (case map_of d k of Some v \<Rightarrow> v | None \<Rightarrow> dflt)"

text \<open>\<^verbatim>\<open>d.update(e)\<close> and \<^verbatim>\<open>d[k] = v\<close> on a dict.\<close>

definition dict_update :: "dict \<Rightarrow> dict \<Rightarrow> dict" where
  "dict_update d e = AList.merge d e"

definition dict_setitem :: "dict \<Rightarrow> string \<Rightarrow> pyval \<Rightarrow> dict" where
  "dict_setitem d k v = AList.update k v d"

text \<open>\<^verbatim>\<open>x.get(k, default)\<close> on any value: only a dict has the method.\<close>

fun py_get :: "pyval \<Rightarrow> string \<Rightarrow> pyval \<Rightarrow> error + pyval" where
  "py_get (PDict d) k dflt = Inr (dict_get d k dflt)"
| "py_get _ k dflt = Inl AttributeError"

text \<open>\<^verbatim>\<open>x["key"]\<close> on any value.\<close>

fun py_getitem_key :: "pyval \<Rightarrow> string \<Rightarrow> error + pyval" where
  "py_getitem_key (PDict d) k = (case map_of d k of Some v \<Rightarrow> Inr v | None \<Rightarrow> Inl KeyError)"
| "py_getitem_key _ k = Inl TypeError"

text \<open>\<^verbatim>\<open>x[i]\<close> with an integer index: a negative index counts from the end.\<close>

definition list_index :: "'a list \<Rightarrow> int \<Rightarrow> error + 'a" where
  "list_index xs i =
     (if 0 \<le> i \<and> i < int (length xs) then Inr (xs ! nat i)
      else if i < 0 \<and> - int (length xs) \<le> i then Inr (xs ! nat (int (length xs) + i))
      else Inl IndexError)"

fun py_getitem_idx :: "pyval \<Rightarrow> int \<Rightarrow> error + pyval" where
  "py_getitem_idx (PList xs) i = list_index xs i"
| "py_getitem_idx (PStr s) i =
     (case list_index s i of Inl e \<Rightarrow> Inl e | Inr c \<Rightarrow> Inr (PStr [c]))"
| "py_getitem_idx (PDict d) i = Inl KeyError"
| "py_getitem_idx _ i = Inl TypeError"

section \<open>The polling data source: \<^verbatim>\<open>UltimakerStatusData\<close>\<close>

text \<open>
  What \<^verbatim>\<open>await self._session.get(url)\<close> under the five second timeout does, by the
  handler of \<^verbatim>\<open>fetch_data\<close> that the outcome reaches first, and what
  \<^verbatim>\<open>await response.json()\<close> does on a response.  The three endpoints answer with
  JSON objects, so a parsed body is a dict.
\<close>

datatype response = Json_raises | Json dict

datatype get_outcome =
    Raises_ClientError
  | Raises_TimeoutError
  | Raises_Exception
  | Returns response

type_synonym network = "string \<Rightarrow> get_outcome"

definition MIN_TIME_BETWEEN_UPDATES :: time where
  "MIN_TIME_BETWEEN_UPDATES = 10 * 1000000"

definition BASE_URL :: "string \<Rightarrow> string" where
  "BASE_URL h = ''http://'' @ h @ ''/api/v1''"

definition url_printer :: "string \<Rightarrow> string" where
  "url_printer h = BASE_URL h @ ''/printer''"

definition url_print_job :: "string \<Rightarrow> string" where
  "url_print_job h = BASE_URL h @ ''/print_job''"

definition url_system :: "string \<Rightarrow> string" where
  "url_system h = BASE_URL h @ ''/system''"

text \<open>
  The fields \<^verbatim>\<open>_host\<close> and \<^verbatim>\<open>_data\<close> of the class.  The three URL fields are
  functions of the host and are computed where they are used.  \<open>last_call\<close> is the
  time stamp kept by the throttle.
\<close>

record UltimakerStatusData =
  host :: "string option"
  data :: "dict option"
  last_call :: "time option"

definition init_data :: "string option \<Rightarrow> UltimakerStatusData" where
  "init_data h = \<lparr>host = h, data = None, last_call = None\<rparr>"

text \<open>
  \<^verbatim>\<open>fetch_data\<close>.  A \<^verbatim>\<open>ClientError\<close> is raised again.  After a
  \<^verbatim>\<open>TimeoutError\<close> the handler only logs, so control reaches the second
  \<^verbatim>\<open>try\<close> with \<^verbatim>\<open>response\<close> unbound: reading it raises, and the handler of the
  second \<^verbatim>\<open>try\<close> returns the empty dict.  The variable \<^verbatim>\<open>response\<close> is the option.
\<close>

definition response_json :: "response option \<Rightarrow> error + dict" where
  "response_json r =
     (case r of
        None \<Rightarrow> Inl OtherException
      | Some Json_raises \<Rightarrow> Inl OtherException
      | Some (Json d) \<Rightarrow> Inr d)"

definition parse_response :: "response option \<Rightarrow> error + dict" where
  "parse_response r = (case response_json r of Inl e \<Rightarrow> Inr [] | Inr ret \<Rightarrow> Inr ret)"

definition fetch_data :: "network \<Rightarrow> string \<Rightarrow> error + dict" where
  "fetch_data net url =
     (case net url of
        Raises_ClientError \<Rightarrow> Inl ClientError
      | Raises_TimeoutError \<Rightarrow> parse_response None
      | Raises_Exception \<Rightarrow> Inr []
      | Returns r \<Rightarrow> parse_response (Some r))"

text \<open>
  The three fetches of \<^verbatim>\<open>async_update\<close> in order, with the requests issued: an
  exception of one fetch skips the later ones.
\<close>

definition fetch_and_merge :: "network \<Rightarrow> string \<Rightarrow> (error + dict) \<times> string list" where
  "fetch_and_merge net h =
     (case fetch_data net (url_printer h) of
        Inl e \<Rightarrow> (Inl e, [url_printer h])
      | Inr printer_data \<Rightarrow>
     (case fetch_data net (url_print_job h) of
        Inl e \<Rightarrow> (Inl e, [url_printer h, url_print_job h])
      | Inr print_job_data \<Rightarrow>
     (case fetch_data net (url_system h) of
        Inl e \<Rightarrow> (Inl e, [url_printer h, url_print_job h, url_system h])
      | Inr system_data \<Rightarrow>
          (Inr (dict_update (dict_update printer_data print_job_data) system_data),
           [url_printer h, url_print_job h, url_system h]))))"

text \<open>
  The body of \<^verbatim>\<open>UltimakerStatusData.async_update\<close>: the exception that leaves it
  (if any), the new object and the requests issued.  \<open>stamp\<close> is the value of
  \<^verbatim>\<open>datetime.now()\<close> when the sample time is written.
\<close>

definition host_truthy :: "string option \<Rightarrow> bool" where
  "host_truthy h = (case h of None \<Rightarrow> False | Some s \<Rightarrow> s \<noteq> [])"

definition async_update_body ::
  "network \<Rightarrow> time \<Rightarrow> UltimakerStatusData \<Rightarrow> error option \<times> UltimakerStatusData \<times> string list" where
  "async_update_body net stamp ds =
     (if host_truthy (host ds) then
        (case fetch_and_merge net (the (host ds)) of
           (Inr merged, reqs) \<Rightarrow>
             (None, ds\<lparr>data := Some (dict_setitem merged ''sampleTime'' (PTime stamp))\<rparr>, reqs)
         | (Inl ClientError, reqs) \<Rightarrow>
             (None,
              ds\<lparr>data := Some (dict_setitem [(''status'', PStr ''not connected'')]
                                  ''sampleTime'' (PTime stamp))\<rparr>,
              reqs)
         | (Inl e, reqs) \<Rightarrow> (Some e, ds, reqs))
      else (None, ds, []))"

text \<open>
  Modelled from the spec: the decorator \<^verbatim>\<open>Throttle\<close> is imported from the host
  framework and its code is not among the sources.  The specification describes it as
  a gate checked at the top of the refresh, storing the time of the last attempt and
  the minimum interval: when less than the minimum interval has elapsed since the last
  attempt, successful or failed, the call returns at once without a request and the
  snapshot is kept; otherwise the refresh runs.  \<open>now\<close> is the time of the call.
\<close>

definition throttled :: "time option \<Rightarrow> time \<Rightarrow> bool" where
  "throttled prev now =
     (case prev of None \<Rightarrow> False | Some t \<Rightarrow> now - t < MIN_TIME_BETWEEN_UPDATES)"

definition async_update ::
  "network \<Rightarrow> time \<Rightarrow> time \<Rightarrow> UltimakerStatusData \<Rightarrow> error option \<times> UltimakerStatusData \<times> string list" where
  "async_update net now stamp ds =
     (if throttled (last_call ds) now then (None, ds, [])
      else async_update_body net stamp (ds\<lparr>last_call := Some now\<rparr>))"

definition latest_data :: "UltimakerStatusData \<Rightarrow> dict option" where
  "latest_data ds = data ds"

section \<open>The metric extractor: \<^verbatim>\<open>UltimakerStatusSensor\<close>\<close>

text \<open>Sequencing of steps that may raise.\<close>

definition and_then :: "error + 'a \<Rightarrow> ('a \<Rightarrow> error + 'b) \<Rightarrow> error + 'b" where
  "and_then m f = (case m of Inl e \<Rightarrow> Inl e | Inr x \<Rightarrow> f x)"

text \<open>
  \<^verbatim>\<open>sub in s\<close> on strings, \<^verbatim>\<open>s.split(c)\<close> (the piece being read is kept
  reversed) and \<^verbatim>\<open>s.replace("_", " ")\<close>.
\<close>

fun py_in :: "string \<Rightarrow> string \<Rightarrow> bool" where
  "py_in sub [] = (sub = [])"
| "py_in sub (c # cs) = (prefix sub (c # cs) \<or> py_in sub cs)"

fun split_from :: "char \<Rightarrow> string \<Rightarrow> string \<Rightarrow> string list" where
  "split_from c piece [] = [rev piece]"
| "split_from c piece (x # xs) =
     (if x = c then rev piece # split_from c [] xs else split_from c (x # piece) xs)"

definition split_on :: "char \<Rightarrow> string \<Rightarrow> string list" where
  "split_on c s = split_from c [] s"

definition replace_underscores :: "string \<Rightarrow> string" where
  "replace_underscores s = map (\<lambda>c. if c = CHR ''_'' then CHR '' '' else c) s"

text \<open>
  \<^verbatim>\<open>int(s)\<close> on a string of decimal digits, the only strings that reach it from a
  metric identifier; every other string is rejected here.
\<close>

definition digit_val :: "char \<Rightarrow> int option" where
  "digit_val c =
     (if of_char CHR ''0'' \<le> (of_char c :: nat) \<and> (of_char c :: nat) \<le> of_char CHR ''9''
      then Some (int (of_char c - of_char CHR ''0''))
      else None)"

fun digits_val :: "int \<Rightarrow> string \<Rightarrow> int option" where
  "digits_val acc [] = Some acc"
| "digits_val acc (c # cs) =
     (case digit_val c of None \<Rightarrow> None | Some d \<Rightarrow> digits_val (10 * acc + d) cs)"

definition py_int :: "string \<Rightarrow> error + int" where
  "py_int s =
     (if s = [] then Inl ValueError
      else case digits_val 0 s of None \<Rightarrow> Inl ValueError | Some n \<Rightarrow> Inr n)"

text \<open>\<^verbatim>\<open>x *= 100\<close>, \<^verbatim>\<open>x / 1000\<close> and \<^verbatim>\<open>x.replace("_", " ")\<close> on any value.\<close>

fun py_mul_100 :: "pyval \<Rightarrow> error + pyval" where
  "py_mul_100 (PInt i) = Inr (PInt (i * 100))"
| "py_mul_100 (PFloat x) = Inr (PFloat (x * 100))"
| "py_mul_100 (PBool b) = Inr (PInt ((if b then 1 else 0) * 100))"
| "py_mul_100 (PStr s) = Inr (PStr (concat (replicate 100 s)))"
| "py_mul_100 (PList xs) = Inr (PList (concat (replicate 100 xs)))"
| "py_mul_100 _ = Inl TypeError"

fun py_div_1000 :: "pyval \<Rightarrow> error + pyval" where
  "py_div_1000 (PInt i) = Inr (PFloat (of_int i / 1000))"
| "py_div_1000 (PFloat x) = Inr (PFloat (x / 1000))"
| "py_div_1000 (PBool b) = Inr (PFloat ((if b then 1 else 0) / 1000))"
| "py_div_1000 _ = Inl TypeError"

fun py_replace :: "pyval \<Rightarrow> error + pyval" where
  "py_replace (PStr s) = Inr (PStr (replace_underscores s))"
| "py_replace (PTime t) = Inl TypeError"
| "py_replace _ = Inl AttributeError"

text \<open>
  \<^verbatim>\<open>round(x, ndigits)\<close> on a float: to the nearest multiple of \<open>10\<close> to the minus
  \<open>ndigits\<close>, a tie going to the even one.
\<close>

definition round_half_even :: "real \<Rightarrow> int" where
  "round_half_even x =
     (let f = \<lfloor>x\<rfloor>; r = x - of_int f
      in if r < 1 / 2 then f else if 1 / 2 < r then f + 1
         else if even f then f else f + 1)"

definition py_round :: "real \<Rightarrow> int \<Rightarrow> real" where
  "py_round x ndigits =
     (if 0 \<le> ndigits
      then of_int (round_half_even (x * 10 ^ nat ndigits)) / 10 ^ nat ndigits
      else of_int (round_half_even (x / 10 ^ nat (- ndigits))) * 10 ^ nat (- ndigits))"

subsection \<open>The material table\<close>

record material_entry =
  guid :: string
  brand :: string
  material :: string
  color :: string
  version :: int
  density :: real

definition MATERIAL_LIST :: "material_entry list" where
  "MATERIAL_LIST = [
    \<lparr>guid = ''7cbdb9ca-081a-456f-a6ba-f73e4e9cb856'', brand = ''Ultimaker'', material = ''ABS'',
     color = ''Pearl Gold'', version = 28, density = 1.1\<rparr>,
    \<lparr>guid = ''60636bb4-518f-42e7-8237-fe77b194ebe0'', brand = ''Generic'', material = ''ABS'',
     color = ''Generic'', version = 25, density = 1.1\<rparr>,
    \<lparr>guid = ''7e6207c4-22ff-441a-b261-ff89f166d6a0'', brand = ''Generic'', material = ''Breakaway'',
     color = ''Generic'', version = 25, density = 1.22\<rparr>,
    \<lparr>guid = ''12f41353-1a33-415e-8b4f-a775a6c70cc6'', brand = ''Generic'', material = ''CPE'',
     color = ''Generic'', version = 28, density = 1.27\<rparr>,
    \<lparr>guid = ''e2409626-b5a0-4025-b73e-b58070219259'', brand = ''Generic'', material = ''CPE+'',
     color = ''Generic'', version = 27, density = 1.18\<rparr>,
    \<lparr>guid = ''28fb4162-db74-49e1-9008-d05f1e8bef5c'', brand = ''Generic'', material = ''Nylon'',
     color = ''Generic'', version = 24, density = 1.14\<rparr>,
    \<lparr>guid = ''98c05714-bf4e-4455-ba27-57d74fe331e4'', brand = ''Generic'', material = ''PC'',
     color = ''Generic'', version = 26, density = 1.19\<rparr>,
    \<lparr>guid = ''1cbfaeb3-1906-4b26-b2e7-6f777a8c197a'', brand = ''Generic'', material = ''PETG'',
     color = ''Generic'', version = 13, density = 1.27\<rparr>,
    \<lparr>guid = ''506c9f0d-e3aa-4bd4-b2d2-23e2425b1aa9'', brand = ''Generic'', material = ''PLA'',
     color = ''Generic'', version = 25, density = 1.24\<rparr>,
    \<lparr>guid = ''aa22e9c7-421f-4745-afc2-81851694394a'', brand = ''Generic'', material = ''PP'',
     color = ''Generic'', version = 27, density = 0.89\<rparr>,
    \<lparr>guid = ''86a89ceb-4159-47f6-ab97-e9953803d70f'', brand = ''Generic'', material = ''PVA'',
     color = ''Generic'', version = 26, density = 1.23\<rparr>,
    \<lparr>guid = ''9d5d2d7c-4e77-441c-85a0-e9eefd4aa68c'', brand = ''Generic'', material = ''Tough PLA'',
     color = ''Generic'', version = 19, density = 1.24\<rparr>,
    \<lparr>guid = ''1d52b2be-a3a2-41de-a8b1-3bcdb5618695'', brand = ''Generic'', material = ''TPU 95A'',
     color = ''Generic'', version = 27, density = 1.22\<rparr>,
    \<lparr>guid = ''2f9d2279-9b0e-4765-bf9b-d1e1e13f3c49'', brand = ''Ultimaker'', material = ''ABS'',
     color = ''Black'', version = 28, density = 1.1\<rparr>,
    \<lparr>guid = ''7c9575a6-c8d6-40ec-b3dd-18d7956bfaae'', brand = ''Ultimaker'', material = ''ABS'',
     color = ''Blue'', version = 28, density = 1.1\<rparr>,
    \<lparr>guid = ''3400c0d1-a4e3-47de-a444-7b704f287171'', brand = ''Ultimaker'', material = ''ABS'',
     color = ''Green'', version = 28, density = 1.1\<rparr>,
    \<lparr>guid = ''8b75b775-d3f2-4d0f-8fb2-2a3dd53cf673'', brand = ''Ultimaker'', material = ''ABS'',
     color = ''Grey'', version = 28, density = 1.1\<rparr>,
    \<lparr>guid = ''0b4ca6ef-eac8-4b23-b3ca-5f21af00e54f'', brand = ''Ultimaker'', material = ''ABS'',
     color = ''Orange'', version = 28, density = 1.1\<rparr>,
    \<lparr>guid = ''763c926e-a5f7-4ba0-927d-b4e038ea2735'', brand = ''Ultimaker'', material = ''ABS'',
     color = ''Silver Metallic'', version = 28, density = 1.1\<rparr>,
    \<lparr>guid = ''5df7afa6-48bd-4c19-b314-839fe9f08f1f'', brand = ''Ultimaker'', material = ''ABS'',
     color = ''Red'', version = 28, density = 1.1\<rparr>,
    \<lparr>guid = ''173a7bae-5e14-470e-817e-08609c61e12b'', brand = ''Ultimaker'', material = ''CPE'',
     color = ''Light Grey'', version = 31, density = 1.27\<rparr>,
    \<lparr>guid = ''5253a75a-27dc-4043-910f-753ae11bc417'', brand = ''Ultimaker'', material = ''ABS'',
     color = ''White'', version = 28, density = 1.1\<rparr>,
    \<lparr>guid = ''e873341d-d9b8-45f9-9a6f-5609e1bcff68'', brand = ''Ultimaker'', material = ''ABS'',
     color = ''Yellow'', version = 28, density = 1.1\<rparr>,
    \<lparr>guid = ''7e6207c4-22ff-441a-b261-ff89f166d5f9'', brand = ''Ultimaker'', material = ''Breakaway'',
     color = ''White'', version = 29, density = 1.22\<rparr>,
    \<lparr>guid = ''a8955dc3-9d7e-404d-8c03-0fd6fee7f22d'', brand = ''Ultimaker'', material = ''CPE'',
     color = ''Black'', version = 31, density = 1.27\<rparr>,
    \<lparr>guid = ''4d816290-ce2e-40e0-8dc8-3f702243131e'', brand = ''Ultimaker'', material = ''CPE'',
     color = ''Blue'', version = 31, density = 1.27\<rparr>,
    \<lparr>guid = ''10961c00-3caf-48e9-a598-fa805ada1e8d'', brand = ''Ultimaker'', material = ''CPE'',
     color = ''Dark Grey'', version = 31, density = 1.27\<rparr>,
    \<lparr>guid = ''7ff6d2c8-d626-48cd-8012-7725fa537cc9'', brand = ''Ultimaker'', material = ''CPE'',
     color = ''Green'', version = 31, density = 1.27\<rparr>,
    \<lparr>guid = ''1f3c3be1-2e60-4343-b35d-cb383958d992'', brand = ''Ultimaker'', material = ''PETG'',
     color = ''Green Translucent'', version = 30, density = 1.27\<rparr>,
    \<lparr>guid = ''1aca047a-42df-497c-abfb-0e9cb85ead52'', brand = ''Ultimaker'', material = ''CPE+'',
     color = ''Black'', version = 29, density = 1.18\<rparr>,
    \<lparr>guid = ''a9c340fe-255f-4914-87f5-ec4fcb0c11ef'', brand = ''Ultimaker'', material = ''CPE+'',
     color = ''Transparent'', version = 29, density = 1.18\<rparr>,
    \<lparr>guid = ''6df69b13-2d96-4a69-a297-aedba667e710'', brand = ''Ultimaker'', material = ''CPE+'',
     color = ''White'', version = 29, density = 1.18\<rparr>,
    \<lparr>guid = ''00181d6c-7024-479a-8eb7-8a2e38a2619a'', brand = ''Ultimaker'', material = ''CPE'',
     color = ''Red'', version = 31, density = 1.27\<rparr>,
    \<lparr>guid = ''bd0d9eb3-a920-4632-84e8-dcd6086746c5'', brand = ''Ultimaker'', material = ''CPE'',
     color = ''Transparent'', version = 31, density = 1.27\<rparr>,
    \<lparr>guid = ''881c888e-24fb-4a64-a4ac-d5c95b096cd7'', brand = ''Ultimaker'', material = ''CPE'',
     color = ''White'', version = 31, density = 1.27\<rparr>,
    \<lparr>guid = ''b9176a2a-7a0f-4821-9f29-76d882a88682'', brand = ''Ultimaker'', material = ''CPE'',
     color = ''Yellow'', version = 31, density = 1.27\<rparr>,
    \<lparr>guid = ''c64c2dbe-5691-4363-a7d9-66b2dc12837f'', brand = ''Ultimaker'', material = ''Nylon'',
     color = ''Black'', version = 27, density = 1.14\<rparr>,
    \<lparr>guid = ''e256615d-a04e-4f53-b311-114b90560af9'', brand = ''Ultimaker'', material = ''Nylon'',
     color = ''Transparent'', version = 27, density = 1.14\<rparr>,
    \<lparr>guid = ''e92b1f0b-a069-4969-86b4-30127cfb6f7b'', brand = ''Ultimaker'', material = ''PC'',
     color = ''Black'', version = 29, density = 1.19\<rparr>,
    \<lparr>guid = ''8a38a3e9-ecf7-4a7d-a6a9-e7ac35102968'', brand = ''Ultimaker'', material = ''PC'',
     color = ''Transparent'', version = 29, density = 1.19\<rparr>,
    \<lparr>guid = ''5e786b05-a620-4a87-92d0-f02becc1ff98'', brand = ''Ultimaker'', material = ''PC'',
     color = ''White'', version = 29, density = 1.19\<rparr>,
    \<lparr>guid = ''3ee70a86-77d8-4b87-8005-e4a1bc57d2ce'', brand = ''Ultimaker'', material = ''PLA'',
     color = ''Black'', version = 26, density = 1.24\<rparr>,
    \<lparr>guid = ''44a029e6-e31b-4c9e-a12f-9282e29a92ff'', brand = ''Ultimaker'', material = ''PLA'',
     color = ''Blue'', version = 26, density = 1.24\<rparr>,
    \<lparr>guid = ''2433b8fb-dcd6-4e36-9cd5-9f4ee551c04c'', brand = ''Ultimaker'', material = ''PLA'',
     color = ''Green'', version = 26, density = 1.24\<rparr>,
    \<lparr>guid = ''fe3982c8-58f4-4d86-9ac0-9ff7a3ab9cbc'', brand = ''Ultimaker'', material = ''PLA'',
     color = ''Magenta'', version = 26, density = 1.24\<rparr>,
    \<lparr>guid = ''d9549dba-b9df-45b9-80a5-f7140a9a2f34'', brand = ''Ultimaker'', material = ''PLA'',
     color = ''Orange'', version = 26, density = 1.24\<rparr>,
    \<lparr>guid = ''d9fc79db-82c3-41b5-8c99-33b3747b8fb3'', brand = ''Ultimaker'', material = ''PLA'',
     color = ''Pearl-White'', version = 26, density = 1.24\<rparr>,
    \<lparr>guid = ''9cfe5bf1-bdc5-4beb-871a-52c70777842d'', brand = ''Ultimaker'', material = ''PLA'',
     color = ''Red'', version = 26, density = 1.24\<rparr>,
    \<lparr>guid = ''e509f649-9fe6-4b14-ac45-d441438cb4ef'', brand = ''Ultimaker'', material = ''PLA'',
     color = ''White'', version = 26, density = 1.24\<rparr>,
    \<lparr>guid = ''0e01be8c-e425-4fb1-b4a3-b79f255f1db9'', brand = ''Ultimaker'', material = ''PLA'',
     color = ''Silver Metallic'', version = 26, density = 1.24\<rparr>,
    \<lparr>guid = ''532e8b3d-5fd4-4149-b936-53ada9bd6b85'', brand = ''Ultimaker'', material = ''PLA'',
     color = ''Transparent'', version = 26, density = 1.24\<rparr>,
    \<lparr>guid = ''fe15ed8a-33c3-4f57-a2a7-b4b78a38c3cb'', brand = ''Ultimaker'', material = ''PVA'',
     color = ''Natural'', version = 30, density = 1.23\<rparr>,
    \<lparr>guid = ''03f24266-0291-43c2-a6da-5211892a2699'', brand = ''Ultimaker'', material = ''Tough PLA'',
     color = ''Black'', version = 22, density = 1.22\<rparr>,
    \<lparr>guid = ''07a4547f-d21f-41a0-8eee-bc92125221b3'', brand = ''Ultimaker'', material = ''TPU 95A'',
     color = ''Red'', version = 30, density = 1.22\<rparr>,
    \<lparr>guid = ''c8e4a85e-b256-4468-8516-0aa98c69c7d7'', brand = ''Ultimaker'', material = ''PETG'',
     color = ''Green'', version = 30, density = 1.27\<rparr>,
    \<lparr>guid = ''c8394116-30ba-4112-b4d9-8b2394278cb3'', brand = ''Ultimaker'', material = ''PETG'',
     color = ''Grey'', version = 30, density = 1.27\<rparr>,
    \<lparr>guid = ''a02a3978-eb33-47ca-b32b-d08b92b58638'', brand = ''Ultimaker'', material = ''PETG'',
     color = ''Orange'', version = 30, density = 1.27\<rparr>,
    \<lparr>guid = ''9680dff6-7aa5-400b-982c-40a0de06a718'', brand = ''Ultimaker'', material = ''PETG'',
     color = ''Red'', version = 30, density = 1.27\<rparr>,
    \<lparr>guid = ''40a273c6-0e15-4db5-a278-8eb0b4a9e293'', brand = ''Ultimaker'', material = ''PETG'',
     color = ''Silver'', version = 30, density = 1.27\<rparr>,
    \<lparr>guid = ''61eb5c6c-0110-49de-9756-13b8c7cc2ff1'', brand = ''Ultimaker'', material = ''PETG'',
     color = ''White'', version = 30, density = 1.27\<rparr>,
    \<lparr>guid = ''d67a3ccb-6b51-4013-bdac-4c59e952aaf4'', brand = ''Ultimaker'', material = ''PETG'',
     color = ''Yellow Fluorescent'', version = 30, density = 1.27\<rparr>,
    \<lparr>guid = ''9c1959d0-f597-46ec-9131-34020c7a54fc'', brand = ''Ultimaker'', material = ''PLA'',
     color = ''Yellow'', version = 26, density = 1.24\<rparr>,
    \<lparr>guid = ''c7005925-2a41-4280-8cdd-4029e3fe5253'', brand = ''Ultimaker'', material = ''PP'',
     color = ''Transparent'', version = 30, density = 0.89\<rparr>,
    \<lparr>guid = ''6d71f4ad-29ab-4b50-8f65-22d99af294dd'', brand = ''Ultimaker'', material = ''Tough PLA'',
     color = ''Green'', version = 22, density = 1.22\<rparr>,
    \<lparr>guid = ''2db25566-9a91-4145-84a5-46c90ed22bdf'', brand = ''Ultimaker'', material = ''Tough PLA'',
     color = ''Red'', version = 22, density = 1.24\<rparr>,
    \<lparr>guid = ''851427a0-0c9a-4d7c-a9a8-5cc92f84af1f'', brand = ''Ultimaker'', material = ''Tough PLA'',
     color = ''White'', version = 22, density = 1.24\<rparr>,
    \<lparr>guid = ''eff40bcf-588d-420d-a3bc-a5ffd8c7f4b3'', brand = ''Ultimaker'', material = ''TPU 95A'',
     color = ''Black'', version = 30, density = 1.22\<rparr>,
    \<lparr>guid = ''5f4a826c-7bfe-460f-8650-a9178b180d34'', brand = ''Ultimaker'', material = ''TPU 95A'',
     color = ''Blue'', version = 30, density = 1.22\<rparr>,
    \<lparr>guid = ''6a2573e6-c8ee-4c66-8029-3ebb3d5adc5b'', brand = ''Ultimaker'', material = ''TPU 95A'',
     color = ''White'', version = 30, density = 1.22\<rparr>,
    \<lparr>guid = ''5f9f3de0-045b-48d9-84ec-19db92be7603'', brand = ''Ultimaker'', material = ''PETG'',
     color = ''Black'', version = 30, density = 1.27\<rparr>,
    \<lparr>guid = ''2257ab94-fb27-42e6-865c-05aa6717504b'', brand = ''Ultimaker'', material = ''PETG'',
     color = ''Blue'', version = 30, density = 1.27\<rparr>,
    \<lparr>guid = ''e0af2080-29fc-4b18-a5c0-42ca112f507f'', brand = ''Ultimaker'', material = ''PETG'',
     color = ''Blue Translucent'', version = 30, density = 1.27\<rparr>,
    \<lparr>guid = ''218379df-4a67-4668-b5f8-2a14c92bce96'', brand = ''Ultimaker'', material = ''PETG'',
     color = ''Yellow'', version = 30, density = 1.27\<rparr>,
    \<lparr>guid = ''c8639119-5cae-4f56-9bcf-3bb00e8225fd'', brand = ''Ultimaker'', material = ''PETG'',
     color = ''Red Translucent'', version = 30, density = 1.27\<rparr>,
    \<lparr>guid = ''7418eca4-e2c4-45b1-a022-37180861fd39'', brand = ''Ultimaker'', material = ''PETG'',
     color = ''Transparent'', version = 30, density = 1.27\<rparr>,
    \<lparr>guid = ''55317359-2538-4b89-855d-e74d3c3d5916'', brand = ''DSM'', material = ''Novamid ID 1030 CF'',
     color = ''Generic'', version = 1, density = 1\<rparr>,
    \<lparr>guid = ''efbc209c-14ec-4671-acca-93eef5a207f8'', brand = ''Owens Corning'', material = ''XSTRAND GF30-PA6'',
     color = ''Generic'', version = 2, density = 1.17\<rparr>,
    \<lparr>guid = ''6660eb2e-aa40-49ad-ac9b-ada979f3de9b'', brand = ''Ultimaker'', material = ''Tough PLA'',
     color = ''Gray'', version = 12, density = 1.24\<rparr>,
    \<lparr>guid = ''4b049931-6ee9-408c-8588-ddd4673467d1'', brand = ''Ultimaker'', material = ''Tough PLA'',
     color = ''Blue'', version = 12, density = 1.24\<rparr>,
    \<lparr>guid = ''bfdb0787-032d-4cf5-9975-964132bd641c'', brand = ''Ultimaker'', material = ''Tough PLA'',
     color = ''Yellow'', version = 12, density = 1.24\<rparr>
  ]"

subsection \<open>The sensor\<close>

text \<open>
  The fields \<^verbatim>\<open>_name\<close>, \<^verbatim>\<open>_type\<close>, \<^verbatim>\<open>_unit\<close>, \<^verbatim>\<open>_icon\<close>, \<^verbatim>\<open>_decimal\<close>,
  \<^verbatim>\<open>_state\<close> and \<^verbatim>\<open>_last_updated\<close> of the class.  The field \<^verbatim>\<open>_data\<close>, the
  shared data source, is passed to \<open>sensor_async_update\<close> beside the sensor.
\<close>

record UltimakerStatusSensor =
  s_name :: string
  s_type :: string
  s_unit :: string
  s_icon :: string
  s_decimal :: int
  s_state :: pyval
  s_last_updated :: pyval

definition init_sensor :: "string \<Rightarrow> string \<Rightarrow> string \<Rightarrow> string \<Rightarrow> int \<Rightarrow> UltimakerStatusSensor" where
  "init_sensor n t u i d =
     \<lparr>s_name = n, s_type = t, s_unit = u, s_icon = i, s_decimal = d,
      s_state = PNone, s_last_updated = PNone\<rparr>"

text \<open>The property \<^verbatim>\<open>state\<close>: what the host reads.\<close>

definition state :: "UltimakerStatusSensor \<Rightarrow> pyval" where
  "state s =
     (case s_state s of
        PFloat x \<Rightarrow> PFloat (py_round x (s_decimal s))
      | v \<Rightarrow> v)"

definition device_state_attributes :: "UltimakerStatusSensor \<Rightarrow> dict" where
  "device_state_attributes s =
     (if s_last_updated s \<noteq> PNone then [(''Last Updated'', s_last_updated s)] else [])"

text \<open>
  \<^verbatim>\<open>__translate\<close>: \<^verbatim>\<open>next\<close> over the entries with the given guid raises
  \<^verbatim>\<open>StopIteration\<close> when there is none.
\<close>

definition next_material :: "pyval \<Rightarrow> error + material_entry" where
  "next_material g =
     (case find (\<lambda>d. PStr (guid d) = g) MATERIAL_LIST of
        None \<Rightarrow> Inl StopIteration
      | Some d \<Rightarrow> Inr d)"

definition translate :: "pyval \<Rightarrow> error + pyval" where
  "translate g =
     and_then (next_material g) (\<lambda>d1.
     and_then (next_material g) (\<lambda>d2.
       Inr (PStr (material d1 @ '' - '' @ color d2))))"

text \<open>The branch of \<^verbatim>\<open>async_update\<close> for the bed metrics.\<close>

definition update_bed :: "UltimakerStatusSensor \<Rightarrow> dict \<Rightarrow> error + UltimakerStatusSensor" where
  "update_bed s d =
     (let bed = dict_get d ''bed'' PNone in
      and_then
        (if py_in ''temperature'' (s_type s) \<and> truthy bed then
           and_then (py_get bed ''temperature'' PNone) (\<lambda>temperature.
             if truthy temperature then
               if py_in ''target'' (s_type s)
               then and_then (py_get temperature ''target'' PNone) (\<lambda>v. Inr (s\<lparr>s_state := v\<rparr>))
               else and_then (py_get temperature ''current'' PNone) (\<lambda>v. Inr (s\<lparr>s_state := v\<rparr>))
             else Inr s)
         else Inr s)
        (\<lambda>s1.
           if py_in ''type'' (s_type s1) \<and> truthy bed
           then and_then (py_get bed ''type'' PNone) (\<lambda>v. Inr (s1\<lparr>s_state := v\<rparr>))
           else Inr s1))"

text \<open>
  The walk shared by the hotend and the material metrics:
  \<^verbatim>\<open>idx = int(self._type.split("_")[k]) - 1\<close> and
  \<^verbatim>\<open>extruder = head["extruders"][idx]\<close>.
\<close>

definition extruder_of :: "string \<Rightarrow> int \<Rightarrow> pyval \<Rightarrow> error + pyval" where
  "extruder_of t k head =
     and_then (list_index (split_on CHR ''_'' t) k) (\<lambda>piece.
     and_then (py_int piece) (\<lambda>n.
     and_then (py_getitem_key head ''extruders'') (\<lambda>extruders.
       py_getitem_idx extruders (n - 1))))"

definition update_hotend :: "UltimakerStatusSensor \<Rightarrow> dict \<Rightarrow> error + UltimakerStatusSensor" where
  "update_hotend s d =
     and_then (py_getitem_idx (dict_get d ''heads'' (PList [PNone])) 0) (\<lambda>head.
       if truthy head then
         and_then (extruder_of (s_type s) 1 head) (\<lambda>extruder.
         and_then (py_getitem_key extruder ''hotend'') (\<lambda>hot_end.
         and_then
           (if py_in ''temperature'' (s_type s) \<and> truthy hot_end then
              and_then (py_getitem_key hot_end ''temperature'') (\<lambda>temperature.
                if py_in ''target'' (s_type s)
                then and_then (py_get temperature ''target'' PNone) (\<lambda>v. Inr (s\<lparr>s_state := v\<rparr>))
                else and_then (py_get temperature ''current'' PNone) (\<lambda>v. Inr (s\<lparr>s_state := v\<rparr>)))
            else Inr s)
           (\<lambda>s1.
              if py_in ''id'' (s_type s1) \<and> truthy hot_end
              then and_then (py_getitem_key hot_end ''id'') (\<lambda>v. Inr (s1\<lparr>s_state := v\<rparr>))
              else Inr s1)))
       else Inr s)"

definition update_active_material ::
  "UltimakerStatusSensor \<Rightarrow> dict \<Rightarrow> error + UltimakerStatusSensor" where
  "update_active_material s d =
     and_then (py_getitem_idx (dict_get d ''heads'' (PList [PNone])) 0) (\<lambda>head.
       if truthy head then
         and_then (extruder_of (s_type s) 2 head) (\<lambda>extruder.
         and_then (py_getitem_key extruder ''active_material'') (\<lambda>active_material.
         and_then
           (if py_in ''guid'' (s_type s) \<and> truthy active_material then
              and_then (py_getitem_key active_material ''guid'') (\<lambda>g.
              and_then (translate g) (\<lambda>v. Inr (s\<lparr>s_state := v\<rparr>)))
            else Inr s)
           (\<lambda>s1.
              if py_in ''length_remaining'' (s_type s1) \<and> truthy active_material then
                and_then (py_getitem_key active_material ''length_remaining'') (\<lambda>l.
                and_then (py_div_1000 l) (\<lambda>v. Inr (s1\<lparr>s_state := v\<rparr>)))
              else Inr s1)))
       else Inr s)"

text \<open>
  The part of \<^verbatim>\<open>UltimakerStatusSensor.async_update\<close> after the snapshot is read.
  When a step raises, the exception is the result.  A \<^verbatim>\<open>StopIteration\<close> that
  leaves a coroutine reaches its caller as a \<^verbatim>\<open>RuntimeError\<close>.
\<close>

definition update_metric :: "UltimakerStatusSensor \<Rightarrow> dict \<Rightarrow> error + UltimakerStatusSensor" where
  "update_metric s d =
     (if s_type s = ''status'' then
        Inr (s\<lparr>s_state := dict_get d ''status'' (PStr ''not connected'')\<rparr>)
      else if s_type s = ''state'' then
        (let v = dict_get d ''state'' PNone in
         if truthy v then and_then (py_replace v) (\<lambda>v'. Inr (s\<lparr>s_state := v'\<rparr>))
         else Inr (s\<lparr>s_state := v\<rparr>))
      else if s_type s = ''progress'' then
        (let v = dict_get d ''progress'' (PInt 0) in
         if truthy v then and_then (py_mul_100 v) (\<lambda>v'. Inr (s\<lparr>s_state := v'\<rparr>))
         else Inr (s\<lparr>s_state := v\<rparr>))
      else if py_in ''bed'' (s_type s) then update_bed s d
      else if py_in ''hotend'' (s_type s) then update_hotend s d
      else if py_in ''active_material'' (s_type s) then update_active_material s d
      else Inr s)"

definition coroutine_error :: "error \<Rightarrow> error" where
  "coroutine_error e = (if e = StopIteration then RuntimeError else e)"

definition update_from :: "UltimakerStatusSensor \<Rightarrow> dict option \<Rightarrow> error + UltimakerStatusSensor" where
  "update_from s snapshot =
     (case snapshot of
        None \<Rightarrow> Inr s
      | Some d \<Rightarrow>
          if d \<noteq> [] then
            (case update_metric (s\<lparr>s_last_updated := dict_get d ''sampleTime'' PNone\<rparr>) d of
               Inl e \<Rightarrow> Inl (coroutine_error e)
             | Inr s' \<Rightarrow> Inr s')
          else Inr s)"

text \<open>
  \<^verbatim>\<open>UltimakerStatusSensor.async_update\<close>: refresh the data source, then read its
  latest snapshot.
\<close>

definition sensor_async_update ::
  "network \<Rightarrow> time \<Rightarrow> time \<Rightarrow> UltimakerStatusSensor \<Rightarrow> UltimakerStatusData \<Rightarrow>
     (error + UltimakerStatusSensor) \<times> UltimakerStatusData \<times> string list" where
  "sensor_async_update net now stamp s ds =
     (case async_update net now stamp ds of
        (Some e, ds', reqs) \<Rightarrow> (Inl (coroutine_error e), ds', reqs)
      | (None, ds', reqs) \<Rightarrow> (update_from s (latest_data ds'), ds', reqs))"

text \<open>The default of the configuration value \<^verbatim>\<open>decimal\<close> in \<^verbatim>\<open>PLATFORM_SCHEMA\<close>.\<close>

definition DEFAULT_DECIMAL :: int where
  "DEFAULT_DECIMAL = 2"

section \<open>Example inputs\<close>

text \<open>
  A printer at host \<^verbatim>\<open>um\<close> whose three endpoints answer; the print job and the
  system both carry a \<^verbatim>\<open>name\<close>.
\<close>

definition office_printer :: network where
  "office_printer u =
     (if u = url_printer ''um'' then Returns (Json [(''status'', PStr ''printing'')])
      else if u = url_print_job ''um'' then
        Returns (Json [(''name'', PStr ''benchy''), (''progress'', PFloat 0.37)])
      else if u = url_system ''um'' then Returns (Json [(''name'', PStr ''um-s5'')])
      else Raises_ClientError)"

text \<open>
  The same printer when the print-job request times out, a printer that cannot be
  reached, and the payloads the first one's printer and system endpoints give.
\<close>

definition slow_print_job :: network where
  "slow_print_job u =
     (if u = url_print_job ''um'' then Raises_TimeoutError else office_printer u)"

definition offline :: network where
  "offline u = Raises_ClientError"

definition example_payload :: "string \<Rightarrow> dict" where
  "example_payload u =
     (if u = url_printer ''um'' then [(''status'', PStr ''printing'')]
      else [(''name'', PStr ''um-s5'')])"

text \<open>
  Snapshots of a printer with one extruder, of a printer that reports an empty list
  of heads, and of one whose extruder reports neither a hotend nor a material; and a
  freshly constructed sensor for a metric.
\<close>

definition single_extruder :: dict where
  "single_extruder =
     [(''heads'', PList [PDict [(''extruders'', PList [PDict
         [(''hotend'', PDict [(''id'', PStr ''AA 0.4''),
             (''temperature'', PDict [(''current'', PFloat 200.5), (''target'', PFloat 210)])]),
          (''active_material'', PDict
            [(''guid'', PStr ''506c9f0d-e3aa-4bd4-b2d2-23e2425b1aa9''),
             (''length_remaining'', PInt 4500)])]])]]),
      (''sampleTime'', PTime 7)]"

definition no_heads :: dict where
  "no_heads = [(''heads'', PList []), (''sampleTime'', PTime 7)]"

definition bare_extruder :: dict where
  "bare_extruder =
     [(''heads'', PList [PDict [(''extruders'', PList [PDict [(''serial'', PStr ''x'')]])]]),
      (''sampleTime'', PTime 7)]"

definition metric_sensor :: "string \<Rightarrow> UltimakerStatusSensor" where
  "metric_sensor t = init_sensor ''Ultimaker'' t [] [] DEFAULT_DECIMAL"

text \<open>A snapshot whose first extruder carries a material that is not in the table.\<close>

definition unknown_material :: dict where
  "unknown_material =
     [(''heads'', PList [PDict [(''extruders'', PList [PDict
         [(''hotend'', PDict [(''id'', PStr ''AA 0.4'')]),
          (''active_material'', PDict
            [(''guid'', PStr ''00000000-0000-0000-0000-000000000000''),
             (''length_remaining'', PInt 4500)])]])]]),
      (''sampleTime'', PTime 7)]"

text \<open>
  A snapshot of a printer with a warm bed and a running job, and the snapshot
  published when the printer cannot be reached.
\<close>

definition heated_bed :: dict where
  "heated_bed =
     [(''bed'', PDict [(''temperature'', PDict [(''current'', PFloat 23.456), (''target'', PFloat 60)]),
                       (''type'', PStr ''glass'')]),
      (''state'', PStr ''pre_print''),
      (''progress'', PFloat 0.37),
      (''sampleTime'', PTime 7)]"

definition not_connected :: dict where
  "not_connected = [(''status'', PStr ''not connected''), (''sampleTime'', PTime 17)]"

text \<open>
  The data source of host \<^verbatim>\<open>um\<close> after one refresh, at time zero, that found the
  printer out of reach.
\<close>

definition polled_once :: UltimakerStatusData where
  "polled_once = fst (snd (async_update offline 0 7 (init_data (Some ''um''))))"

section \<open>Facts about dicts and fetches\<close>

lemma map_of_dict_update: "map_of (dict_update d e) = map_of d ++ map_of e"
  by (simp add: dict_update_def merge_conv')

lemma map_of_dict_setitem: "map_of (dict_setitem d k v) = (map_of d)(k \<mapsto> v)"
  by (simp add: dict_setitem_def update_conv')

lemma fetch_data_Json: "net u = Returns (Json d) \<Longrightarrow> fetch_data net u = Inr d"
  by (simp add: fetch_data_def parse_response_def response_json_def)

lemma fetch_data_Timeout: "net u = Raises_TimeoutError \<Longrightarrow> fetch_data net u = Inr []"
  by (simp add: fetch_data_def parse_response_def response_json_def)

lemma fetch_data_ClientError: "net u = Raises_ClientError \<Longrightarrow> fetch_data net u = Inl ClientError"
  by (simp add: fetch_data_def)

lemma fetch_data_cases: "fetch_data net u = Inl ClientError \<or> (\<exists>d. fetch_data net u = Inr d)"
  by (cases "net u")
     (auto simp: fetch_data_def parse_response_def response_json_def
           split: response.splits sum.splits)

lemma urls_distinct:
  "url_printer h \<noteq> url_print_job h" "url_printer h \<noteq> url_system h"
  "url_print_job h \<noteq> url_system h" "url_print_job h \<noteq> url_printer h"
  "url_system h \<noteq> url_printer h" "url_system h \<noteq> url_print_job h"
  by (simp_all add: url_printer_def url_print_job_def url_system_def)

lemma fetch_and_merge_all:
  assumes "fetch_data net (url_printer h) = Inr p"
    and "fetch_data net (url_print_job h) = Inr j"
    and "fetch_data net (url_system h) = Inr s"
  shows "fetch_and_merge net h =
    (Inr (dict_update (dict_update p j) s), [url_printer h, url_print_job h, url_system h])"
  using assms by (simp add: fetch_and_merge_def)

lemma async_update_run:
  assumes "host ds = Some h" and "h \<noteq> []" and "\<not> throttled (last_call ds) now"
    and "fetch_and_merge net h = (Inr m, reqs)"
  shows "async_update net now stamp ds =
    (None, ds\<lparr>last_call := Some now, data := Some (dict_setitem m ''sampleTime'' (PTime stamp))\<rparr>, reqs)"
  using assms by (simp add: async_update_def async_update_body_def host_truthy_def)

lemma async_update_fallback:
  assumes "host ds = Some h" and "h \<noteq> []" and "\<not> throttled (last_call ds) now"
    and "fetch_and_merge net h = (Inl ClientError, reqs)"
  shows "async_update net now stamp ds =
    (None, ds\<lparr>last_call := Some now,
        data := Some [(''status'', PStr ''not connected''), (''sampleTime'', PTime stamp)]\<rparr>, reqs)"
  using assms by (simp add: async_update_def async_update_body_def host_truthy_def dict_setitem_def)

lemma office_printer_simps:
  "office_printer (url_printer ''um'') = Returns (Json [(''status'', PStr ''printing'')])"
  "office_printer (url_print_job ''um'') =
     Returns (Json [(''name'', PStr ''benchy''), (''progress'', PFloat 0.37)])"
  "office_printer (url_system ''um'') = Returns (Json [(''name'', PStr ''um-s5'')])"
  by (simp_all add: office_printer_def urls_distinct)

lemma py_int_1: "py_int ''1'' = Inr 1" "py_int ''2'' = Inr 2"
  by (simp_all add: py_int_def digit_val_def)

lemma async_update_no_error: "fst (async_update net now stamp ds) = None"
proof -
  have fm: "fst (fetch_and_merge net h) = Inl ClientError \<or> (\<exists>m. fst (fetch_and_merge net h) = Inr m)" for h
    using fetch_data_cases [of net "url_printer h"] fetch_data_cases [of net "url_print_job h"]
      fetch_data_cases [of net "url_system h"]
    by (auto simp: fetch_and_merge_def)
  have "fst (async_update_body net stamp d) = None" for d
    using fm [of "the (host d)"]
    by (cases "fetch_and_merge net (the (host d))")
       (auto simp: async_update_body_def split: sum.splits error.splits)
  then show ?thesis by (simp add: async_update_def)
qed

lemma fetch_and_merge_ClientError:
  assumes "net (url_printer h) = Raises_ClientError \<or> net (url_print_job h) = Raises_ClientError
     \<or> net (url_system h) = Raises_ClientError"
  shows "\<exists>reqs. fetch_and_merge net h = (Inl ClientError, reqs)"
  using assms fetch_data_cases [of net "url_printer h"] fetch_data_cases [of net "url_print_job h"]
      fetch_data_cases [of net "url_system h"]
  by (auto simp: fetch_and_merge_def fetch_data_ClientError)

lemma update_from_fallback:
  "\<exists>s'. update_from s (Some [(''status'', PStr ''not connected''), (''sampleTime'', PTime t)]) = Inr s'
     \<and> (s_type s = ''status'' \<longrightarrow> state s' = PStr ''not connected'')"
  by (simp add: update_from_def update_metric_def update_bed_def update_hotend_def
      update_active_material_def and_then_def dict_get_def list_index_def state_def)

lemma slow_print_job_simps:
  "slow_print_job (url_print_job ''um'') = Raises_TimeoutError"
  "slow_print_job (url_printer ''um'') = Returns (Json [(''status'', PStr ''printing'')])"
  "slow_print_job (url_system ''um'') = Returns (Json [(''name'', PStr ''um-s5'')])"
  by (simp_all add: slow_print_job_def office_printer_simps urls_distinct)

lemma init_data_run:
  "host (init_data (Some ''um'')) = Some ''um''"
  "\<not> throttled (last_call (init_data (Some ''um''))) t"
  by (simp_all add: init_data_def throttled_def)

lemma offline_fails: "offline (url_printer ''um'') = Raises_ClientError \<or>
    offline (url_print_job ''um'') = Raises_ClientError \<or>
    offline (url_system ''um'') = Raises_ClientError"
  by (simp add: offline_def)

lemmas walk_defs = update_from_def update_metric_def update_hotend_def
  update_active_material_def extruder_of_def and_then_def dict_get_def list_index_def
  py_int_def digit_val_def coroutine_error_def split_on_def

lemma raise1: "update_from (metric_sensor ''hotend_2_temperature'') (Some single_extruder) = Inl IndexError"
  by (simp add: walk_defs metric_sensor_def init_sensor_def single_extruder_def)

lemma raise2: "update_from (metric_sensor ''active_material_2_guid'') (Some single_extruder) = Inl IndexError"
  by (simp add: walk_defs metric_sensor_def init_sensor_def single_extruder_def)

lemma raise3: "update_from (metric_sensor ''hotend_1_temperature'') (Some no_heads) = Inl IndexError"
  by (simp add: walk_defs metric_sensor_def init_sensor_def no_heads_def)

lemma raise4: "update_from (metric_sensor ''active_material_1_length_remaining'') (Some no_heads) = Inl IndexError"
  by (simp add: walk_defs metric_sensor_def init_sensor_def no_heads_def)

lemma raise5: "update_from (metric_sensor ''hotend_1_id'') (Some bare_extruder) = Inl KeyError"
  by (simp add: walk_defs metric_sensor_def init_sensor_def bare_extruder_def)

lemma raise6: "update_from (metric_sensor ''active_material_1_guid'') (Some bare_extruder) = Inl KeyError"
  by (simp add: walk_defs metric_sensor_def init_sensor_def bare_extruder_def)

lemma translate_eq:
  "translate g =
     (case find (\<lambda>e. PStr (guid e) = g) MATERIAL_LIST of
        None \<Rightarrow> Inl StopIteration
      | Some e \<Rightarrow> Inr (PStr (material e @ '' - '' @ color e)))"
  by (simp add: translate_def next_material_def and_then_def split: option.splits)

lemma translate_unknown:
  "translate (PStr ''00000000-0000-0000-0000-000000000000'') = Inl StopIteration"
  by code_simp

lemma translate_PLA:
  "find (\<lambda>e. guid e = ''506c9f0d-e3aa-4bd4-b2d2-23e2425b1aa9'') MATERIAL_LIST =
     Some \<lparr>guid = ''506c9f0d-e3aa-4bd4-b2d2-23e2425b1aa9'', brand = ''Generic'', material = ''PLA'',
           color = ''Generic'', version = 25, density = 1.24\<rparr>"
  by code_simp

lemmas bed_defs = update_from_def update_metric_def update_bed_def and_then_def dict_get_def

lemma not_connected_no_bed: "not_connected \<noteq> []" "map_of not_connected ''bed'' = None"
  "dict_get not_connected ''sampleTime'' PNone = PTime 17"
  by (simp_all add: not_connected_def dict_get_def)

lemma round_half_even_close: "\<bar>of_int (round_half_even y) - y\<bar> \<le> 1 / 2"
proof -
  have "of_int \<lfloor>y\<rfloor> \<le> y" "y < of_int \<lfloor>y\<rfloor> + 1" by linarith+
  then show ?thesis
    by (auto simp: round_half_even_def Let_def)
qed

lemma py_round_grid:
  assumes "0 \<le> n"
  shows "\<exists>k::int. py_round x n = of_int k / 10 ^ nat n"
  using assms by (auto simp: py_round_def)

lemma py_round_close:
  assumes "0 \<le> n"
  shows "\<bar>py_round x n - x\<bar> \<le> 1 / (2 * 10 ^ nat n)"
proof -
  let ?p = "(10::real) ^ nat n"
  have p: "0 < ?p" by simp
  have "py_round x n - x = (of_int (round_half_even (x * ?p)) - x * ?p) / ?p"
    using assms by (simp add: py_round_def field_simps)
  then have "\<bar>py_round x n - x\<bar> = \<bar>of_int (round_half_even (x * ?p)) - x * ?p\<bar> / ?p"
    using p by simp
  also have "\<dots> \<le> (1 / 2) / ?p"
    using round_half_even_close [of "x * ?p"] p by (intro divide_right_mono) simp_all
  finally show ?thesis by simp
qed

lemma bed_temperature_stored:
  assumes "s_type s = ''bed_temperature''"
    and "map_of d ''bed'' = Some (PDict b)"
    and "map_of b ''temperature'' = Some (PDict t)"
    and "map_of t ''current'' = Some v"
  shows "update_from s (Some d) = Inr (s\<lparr>s_last_updated := dict_get d ''sampleTime'' PNone, s_state := v\<rparr>)"
proof -
  have "d \<noteq> []" "b \<noteq> []" "t \<noteq> []" using assms(2-4) by auto
  with assms show ?thesis by (simp add: bed_defs)
qed

lemma py_round_example: "py_round 23.456 1 = 23.5" "py_round 23.456 2 = 23.46" "py_round 37 2 = 37"
  by (simp_all add: py_round_def round_half_even_def Let_def)

lemma heated_bed_path:
  "map_of heated_bed ''bed'' = Some (PDict [(''temperature'',
       PDict [(''current'', PFloat 23.456), (''target'', PFloat 60)]), (''type'', PStr ''glass'')])"
  "heated_bed \<noteq> []"
  "map_of heated_bed ''progress'' = Some (PFloat 0.37)"
  "dict_get heated_bed ''sampleTime'' PNone = PTime 7"
  by (simp_all add: heated_bed_def dict_get_def)

lemma polled_once_eq:
  "polled_once = init_data (Some ''um'')\<lparr>last_call := Some 0,
        data := Some [(''status'', PStr ''not connected''), (''sampleTime'', PTime 7)]\<rparr>"
proof -
  obtain reqs where fm: "fetch_and_merge offline ''um'' = (Inl ClientError, reqs)"
    using fetch_and_merge_ClientError [OF offline_fails] by blast
  have b: "''um'' \<noteq> []" by simp
  show ?thesis
    unfolding polled_once_def
    by (simp add: async_update_fallback [OF init_data_run(1) b init_data_run(2) fm])
qed

section \<open>The merge of the three payloads\<close>

text \<open>
  Claim C1, as amended.  When the three endpoints answer with the objects \<open>p\<close>
  (printer), \<open>j\<close> (print job) and \<open>s\<close> (system), a refresh that is not throttled
  issues the three requests and publishes a snapshot in which \<^verbatim>\<open>sampleTime\<close> is the
  time stamp and every other key has the value of the system payload if the system
  payload defines it, else the value of the print-job payload if that defines it, else
  the value of the printer payload.
\<close>

theorem merged_snapshot_precedence:
  assumes "host ds = Some h" and "h \<noteq> []" and "\<not> throttled (last_call ds) now"
    and "net (url_printer h) = Returns (Json p)"
    and "net (url_print_job h) = Returns (Json j)"
    and "net (url_system h) = Returns (Json s)"
  shows "\<exists>ds' snap. async_update net now stamp ds =
            (None, ds', [url_printer h, url_print_job h, url_system h])
         \<and> latest_data ds' = Some snap
         \<and> map_of snap ''sampleTime'' = Some (PTime stamp)
         \<and> (\<forall>k. k \<noteq> ''sampleTime'' \<longrightarrow>
               map_of snap k =
                 (case map_of s k of Some v \<Rightarrow> Some v
                  | None \<Rightarrow> (case map_of j k of Some v \<Rightarrow> Some v | None \<Rightarrow> map_of p k)))"
proof -
  have fm: "fetch_and_merge net h =
      (Inr (dict_update (dict_update p j) s), [url_printer h, url_print_job h, url_system h])"
    using assms(4-6) by (intro fetch_and_merge_all fetch_data_Json)
  have look: "map_of (dict_setitem (dict_update (dict_update p j) s) ''sampleTime'' (PTime stamp)) k =
      (case map_of s k of Some v \<Rightarrow> Some v
       | None \<Rightarrow> (case map_of j k of Some v \<Rightarrow> Some v | None \<Rightarrow> map_of p k))"
    if "k \<noteq> ''sampleTime''" for k
    using that
    by (simp add: map_of_dict_setitem map_of_dict_update map_add_def split: option.splits)
  let ?snap = "dict_setitem (dict_update (dict_update p j) s) ''sampleTime'' (PTime stamp)"
  let ?ds = "ds\<lparr>last_call := Some now, data := Some ?snap\<rparr>"
  have "async_update net now stamp ds = (None, ?ds, [url_printer h, url_print_job h, url_system h])"
    by (rule async_update_run [OF assms(1-3) fm])
  moreover have "latest_data ?ds = Some ?snap" by (simp add: latest_data_def)
  moreover have "map_of ?snap ''sampleTime'' = Some (PTime stamp)"
    by (simp add: map_of_dict_setitem)
  ultimately show ?thesis using look by blast
qed

text \<open>The amended claim C1 at the example printer.\<close>

theorem merged_snapshot_precedence_witness:
  "\<exists>ds' snap. async_update office_printer 0 7 (init_data (Some ''um'')) =
            (None, ds', [url_printer ''um'', url_print_job ''um'', url_system ''um''])
         \<and> latest_data ds' = Some snap
         \<and> map_of snap ''sampleTime'' = Some (PTime 7)
         \<and> map_of snap ''status'' = Some (PStr ''printing'')
         \<and> map_of snap ''name'' = Some (PStr ''um-s5'')"
proof -
  have a: "host (init_data (Some ''um'')) = Some ''um''" by (simp add: init_data_def)
  have b: "''um'' \<noteq> []" by simp
  have c: "\<not> throttled (last_call (init_data (Some ''um''))) 0"
    by (simp add: init_data_def throttled_def)
  from merged_snapshot_precedence [OF a b c office_printer_simps, of 7]
  obtain ds' snap where r: "async_update office_printer 0 7 (init_data (Some ''um'')) =
            (None, ds', [url_printer ''um'', url_print_job ''um'', url_system ''um''])"
    "latest_data ds' = Some snap" "map_of snap ''sampleTime'' = Some (PTime 7)"
    and k: "\<forall>k. k \<noteq> ''sampleTime'' \<longrightarrow>
               map_of snap k =
                 (case map_of [(''name'', PStr ''um-s5'')] k of Some v \<Rightarrow> Some v
                  | None \<Rightarrow> (case map_of [(''name'', PStr ''benchy''), (''progress'', PFloat 0.37)] k
                     of Some v \<Rightarrow> Some v | None \<Rightarrow> map_of [(''status'', PStr ''printing'')] k))"
    by blast
  from k have "map_of snap ''status'' = Some (PStr ''printing'')"
    and "map_of snap ''name'' = Some (PStr ''um-s5'')" by simp_all
  with r show ?thesis by blast
qed

text \<open>
  Claim C1 as stated gives the print-job payload precedence over the system payload.
  At the example printer the print job defines \<^verbatim>\<open>name\<close> as \<^verbatim>\<open>benchy\<close>, and the
  snapshot holds the system's \<^verbatim>\<open>um-s5\<close>.
\<close>

theorem print_job_wins_counterexample:
  "fetch_data office_printer (url_print_job ''um'') =
      Inr [(''name'', PStr ''benchy''), (''progress'', PFloat 0.37)]
   \<and> map_of (the (latest_data (fst (snd (async_update office_printer 0 7 (init_data (Some ''um''))))))) ''name''
       \<noteq> map_of [(''name'', PStr ''benchy''), (''progress'', PFloat 0.37)] ''name''"
proof -
  have a: "host (init_data (Some ''um'')) = Some ''um''" by (simp add: init_data_def)
  have c: "\<not> throttled (last_call (init_data (Some ''um''))) 0"
    by (simp add: init_data_def throttled_def)
  have fm: "fetch_and_merge office_printer ''um'' =
      (Inr (dict_update (dict_update [(''status'', PStr ''printing'')]
              [(''name'', PStr ''benchy''), (''progress'', PFloat 0.37)]) [(''name'', PStr ''um-s5'')]),
       [url_printer ''um'', url_print_job ''um'', url_system ''um''])"
    by (intro fetch_and_merge_all fetch_data_Json office_printer_simps)
  have run: "async_update office_printer 0 7 (init_data (Some ''um'')) =
      (None, init_data (Some ''um'')\<lparr>last_call := Some 0,
         data := Some (dict_setitem (dict_update (dict_update [(''status'', PStr ''printing'')]
              [(''name'', PStr ''benchy''), (''progress'', PFloat 0.37)]) [(''name'', PStr ''um-s5'')])
              ''sampleTime'' (PTime 7))\<rparr>,
       [url_printer ''um'', url_print_job ''um'', url_system ''um''])"
    using async_update_run [OF a _ c fm] by simp
  show ?thesis
    by (simp add: run fetch_data_Json office_printer_simps latest_data_def
        map_of_dict_setitem map_of_dict_update)
qed

section \<open>A request that times out\<close>

text \<open>
  Claim C2.  In a refresh that is not throttled, when the request to one endpoint
  \<open>t\<close> times out and the other two endpoints answer with the objects
  \<open>payload u\<close>, \<^verbatim>\<open>fetch_data\<close> returns the empty dict for \<open>t\<close>, no exception
  leaves the refresh, all three requests are issued, and the published snapshot is the
  merge of the two payloads that arrived (in the order printer, print job, system)
  with the sample time.
\<close>

theorem timeout_contributes_nothing:
  assumes "host ds = Some h" and "h \<noteq> []" and "\<not> throttled (last_call ds) now"
    and "t \<in> {url_printer h, url_print_job h, url_system h}"
    and "net t = Raises_TimeoutError"
    and "\<forall>u. u \<in> {url_printer h, url_print_job h, url_system h} \<longrightarrow> u \<noteq> t \<longrightarrow>
           net u = Returns (Json (payload u))"
  shows "fetch_data net t = Inr []
     \<and> (\<exists>ds' snap. async_update net now stamp ds =
            (None, ds', [url_printer h, url_print_job h, url_system h])
          \<and> latest_data ds' = Some snap
          \<and> map_of snap =
              (map_of (if url_printer h = t then [] else payload (url_printer h))
               ++ map_of (if url_print_job h = t then [] else payload (url_print_job h))
               ++ map_of (if url_system h = t then [] else payload (url_system h)))
              (''sampleTime'' \<mapsto> PTime stamp))"
proof -
  let ?c = "\<lambda>u. if u = t then [] else payload u"
  have f: "fetch_data net u = Inr (?c u)"
    if "u \<in> {url_printer h, url_print_job h, url_system h}" for u
  proof (cases "u = t")
    case True
    with assms(5) show ?thesis by (simp add: fetch_data_Timeout)
  next
    case False
    with that assms(6) have "net u = Returns (Json (payload u))" by blast
    with False show ?thesis by (simp add: fetch_data_Json)
  qed
  have fm: "fetch_and_merge net h =
      (Inr (dict_update (dict_update (?c (url_printer h)) (?c (url_print_job h))) (?c (url_system h))),
       [url_printer h, url_print_job h, url_system h])"
    by (intro fetch_and_merge_all f) simp_all
  let ?snap = "dict_setitem
      (dict_update (dict_update (?c (url_printer h)) (?c (url_print_job h))) (?c (url_system h)))
      ''sampleTime'' (PTime stamp)"
  let ?ds = "ds\<lparr>last_call := Some now, data := Some ?snap\<rparr>"
  have "async_update net now stamp ds = (None, ?ds, [url_printer h, url_print_job h, url_system h])"
    by (rule async_update_run [OF assms(1-3) fm])
  moreover have "latest_data ?ds = Some ?snap" by (simp add: latest_data_def)
  moreover have "map_of ?snap =
              (map_of (if url_printer h = t then [] else payload (url_printer h))
               ++ map_of (if url_print_job h = t then [] else payload (url_print_job h))
               ++ map_of (if url_system h = t then [] else payload (url_system h)))
              (''sampleTime'' \<mapsto> PTime stamp)"
    by (simp only: map_of_dict_setitem map_of_dict_update)
  moreover have "fetch_data net t = Inr []" using assms(5) by (rule fetch_data_Timeout)
  ultimately show ?thesis by blast
qed

text \<open>Claim C2 at the example printer with a print-job request that times out.\<close>

theorem timeout_contributes_nothing_witness:
  "fetch_data slow_print_job (url_print_job ''um'') = Inr []
     \<and> (\<exists>ds' snap. async_update slow_print_job 0 7 (init_data (Some ''um'')) =
            (None, ds', [url_printer ''um'', url_print_job ''um'', url_system ''um''])
          \<and> latest_data ds' = Some snap
          \<and> map_of snap =
              [''status'' \<mapsto> PStr ''printing'', ''name'' \<mapsto> PStr ''um-s5'',
               ''sampleTime'' \<mapsto> PTime 7])"
proof -
  have b: "''um'' \<noteq> []" by simp
  have t: "url_print_job ''um'' \<in> {url_printer ''um'', url_print_job ''um'', url_system ''um''}"
    by simp
  have p: "\<forall>u. u \<in> {url_printer ''um'', url_print_job ''um'', url_system ''um''} \<longrightarrow>
      u \<noteq> url_print_job ''um'' \<longrightarrow> slow_print_job u = Returns (Json (example_payload u))"
    by (auto simp: slow_print_job_simps example_payload_def urls_distinct)
  have m: "(map_of (if url_printer ''um'' = url_print_job ''um'' then []
                    else example_payload (url_printer ''um''))
            ++ map_of (if url_print_job ''um'' = url_print_job ''um'' then []
                    else example_payload (url_print_job ''um''))
            ++ map_of (if url_system ''um'' = url_print_job ''um'' then []
                    else example_payload (url_system ''um'')))
           (''sampleTime'' \<mapsto> PTime 7) =
           [''status'' \<mapsto> PStr ''printing'', ''name'' \<mapsto> PStr ''um-s5'',
               ''sampleTime'' \<mapsto> PTime 7]"
    by (rule ext) (simp add: example_payload_def urls_distinct map_add_def)
  show ?thesis
    using timeout_contributes_nothing [OF init_data_run(1) b init_data_run(2) t
        slow_print_job_simps(1) p, of 0 7]
    unfolding m .
qed

section \<open>A connection failure\<close>

text \<open>
  Claim C5.  In a refresh that is not throttled, when the request to one of the three
  endpoints fails with a connection error, no exception leaves the refresh and the
  published snapshot holds exactly \<^verbatim>\<open>status\<close> = \<^verbatim>\<open>not connected\<close> and the sample
  time.  Over that snapshot the extraction of every sensor, whatever its metric and
  previous value, returns without an exception, and the status metric reads
  \<^verbatim>\<open>not connected\<close>.
\<close>

theorem connection_failure_fallback:
  assumes "host ds = Some h" and "h \<noteq> []" and "\<not> throttled (last_call ds) now"
    and "net (url_printer h) = Raises_ClientError \<or> net (url_print_job h) = Raises_ClientError
     \<or> net (url_system h) = Raises_ClientError"
  shows "\<exists>ds' reqs snap. async_update net now stamp ds = (None, ds', reqs)
     \<and> latest_data ds' = Some snap
     \<and> map_of snap = [''status'' \<mapsto> PStr ''not connected'', ''sampleTime'' \<mapsto> PTime stamp]
     \<and> (\<forall>s. \<exists>s'. update_from s (Some snap) = Inr s'
            \<and> (s_type s = ''status'' \<longrightarrow> state s' = PStr ''not connected''))"
proof -
  from fetch_and_merge_ClientError [OF assms(4)]
  obtain reqs where fm: "fetch_and_merge net h = (Inl ClientError, reqs)" by blast
  let ?snap = "[(''status'', PStr ''not connected''), (''sampleTime'', PTime stamp)]"
  let ?ds = "ds\<lparr>last_call := Some now, data := Some ?snap\<rparr>"
  have "async_update net now stamp ds = (None, ?ds, reqs)"
    by (rule async_update_fallback [OF assms(1-3) fm])
  moreover have "latest_data ?ds = Some ?snap" by (simp add: latest_data_def)
  moreover have "map_of ?snap = [''status'' \<mapsto> PStr ''not connected'', ''sampleTime'' \<mapsto> PTime stamp]"
    by (rule ext) simp
  ultimately show ?thesis using update_from_fallback [of _ stamp] by blast
qed

text \<open>Claim C5 at a printer that cannot be reached.\<close>

theorem connection_failure_fallback_witness:
  "\<exists>ds' reqs snap. async_update offline 0 7 (init_data (Some ''um'')) = (None, ds', reqs)
     \<and> latest_data ds' = Some snap
     \<and> map_of snap = [''status'' \<mapsto> PStr ''not connected'', ''sampleTime'' \<mapsto> PTime 7]
     \<and> (\<exists>s'. update_from (init_sensor ''Printer status'' ''status'' [] ''mdi:printer-3d'' 2)
                 (Some snap) = Inr s' \<and> state s' = PStr ''not connected'')
     \<and> (\<exists>s'. update_from (init_sensor ''Bed temperature'' ''bed_temperature'' ''C'' ''mdi:thermometer'' 2)
                 (Some snap) = Inr s')"
proof -
  have b: "''um'' \<noteq> []" by simp
  from connection_failure_fallback [OF init_data_run(1) b init_data_run(2) offline_fails, of 0 7]
  obtain ds' reqs snap where r: "async_update offline 0 7 (init_data (Some ''um'')) = (None, ds', reqs)"
    "latest_data ds' = Some snap"
    "map_of snap = [''status'' \<mapsto> PStr ''not connected'', ''sampleTime'' \<mapsto> PTime 7]"
    and a: "\<forall>s. \<exists>s'. update_from s (Some snap) = Inr s'
            \<and> (s_type s = ''status'' \<longrightarrow> state s' = PStr ''not connected'')"
    by blast
  from a [rule_format, of "init_sensor ''Printer status'' ''status'' [] ''mdi:printer-3d'' 2"]
  have s1: "\<exists>s'. update_from (init_sensor ''Printer status'' ''status'' [] ''mdi:printer-3d'' 2)
                 (Some snap) = Inr s' \<and> state s' = PStr ''not connected''"
    by (simp add: init_sensor_def)
  from a [rule_format, of "init_sensor ''Bed temperature'' ''bed_temperature'' ''C'' ''mdi:thermometer'' 2"]
  have s2: "\<exists>s'. update_from (init_sensor ''Bed temperature'' ''bed_temperature'' ''C'' ''mdi:thermometer'' 2)
                 (Some snap) = Inr s'"
    by blast
  from r s1 s2 show ?thesis by blast
qed

section \<open>The throttle\<close>

text \<open>
  Claim C6, as amended.  When a call of the refresh at time \<open>t1\<close> passes the gate
  (it is a refresh attempt), a second call at a time \<open>t2\<close> less than the minimum
  interval after \<open>t1\<close> issues no request, raises nothing and leaves the data source,
  and so its snapshot and sample time, as the first call left it.
\<close>

theorem throttle_keeps_snapshot:
  assumes "\<not> throttled (last_call ds0) t1"
    and "async_update net1 t1 stamp1 ds0 = (e1, ds1, reqs1)"
    and "t2 - t1 < MIN_TIME_BETWEEN_UPDATES"
  shows "async_update net2 t2 stamp2 ds1 = (None, ds1, [])
     \<and> latest_data (fst (snd (async_update net2 t2 stamp2 ds1))) = latest_data ds1"
proof -
  have "last_call (fst (snd (async_update_body net stamp d))) = last_call d" for net stamp d
    by (cases "fetch_and_merge net (the (host d))")
       (auto simp: async_update_body_def split: sum.splits error.splits)
  from this [of net1 stamp1 "ds0\<lparr>last_call := Some t1\<rparr>"] assms(1,2)
  have "last_call ds1 = Some t1" by (simp add: async_update_def)
  with assms(3) have "throttled (last_call ds1) t2" by (simp add: throttled_def)
  then show ?thesis by (simp add: async_update_def)
qed

text \<open>The amended claim C6 for a second call nine seconds after a refresh attempt.\<close>

theorem throttle_keeps_snapshot_witness:
  "async_update office_printer 9000000 9000007
     (fst (snd (async_update offline 0 7 (init_data (Some ''um''))))) =
   (None, fst (snd (async_update offline 0 7 (init_data (Some ''um'')))), [])"
proof -
  have a: "async_update offline 0 7 (init_data (Some ''um'')) =
     (fst (async_update offline 0 7 (init_data (Some ''um''))),
      fst (snd (async_update offline 0 7 (init_data (Some ''um'')))),
      snd (snd (async_update offline 0 7 (init_data (Some ''um'')))))"
    by simp
  have c: "(9000000::int) - 0 < MIN_TIME_BETWEEN_UPDATES"
    by (simp add: MIN_TIME_BETWEEN_UPDATES_def)
  show ?thesis
    using throttle_keeps_snapshot [OF init_data_run(2) a c] by simp
qed

text \<open>
  Claim C6 as stated speaks of every pair of calls less than the minimum interval
  apart.  After a refresh attempt at time zero, a call at 9.9 seconds is stopped by
  the gate and does not move the gate's time stamp; a call at 10.1 seconds, 0.2
  seconds after it, passes the gate, issues the three requests and replaces the
  snapshot.
\<close>

theorem throttled_first_call_counterexample:
  "(10100000::int) - 9900000 < MIN_TIME_BETWEEN_UPDATES
   \<and> async_update office_printer 9900000 9900007 polled_once = (None, polled_once, [])
   \<and> snd (snd (async_update office_printer 10100000 10100007 polled_once)) =
        [url_printer ''um'', url_print_job ''um'', url_system ''um'']
   \<and> latest_data (fst (snd (async_update office_printer 10100000 10100007 polled_once)))
        \<noteq> latest_data polled_once"
proof -
  have h: "host polled_once = Some ''um''" and l: "last_call polled_once = Some 0"
    and d: "latest_data polled_once =
       Some [(''status'', PStr ''not connected''), (''sampleTime'', PTime 7)]"
    by (simp_all add: polled_once_eq init_data_def latest_data_def)
  have 1: "(10100000::int) - 9900000 < MIN_TIME_BETWEEN_UPDATES"
    by (simp add: MIN_TIME_BETWEEN_UPDATES_def)
  have 2: "async_update office_printer 9900000 9900007 polled_once = (None, polled_once, [])"
    by (simp add: async_update_def l throttled_def MIN_TIME_BETWEEN_UPDATES_def)
  have nt: "\<not> throttled (last_call polled_once) 10100000"
    by (simp add: l throttled_def MIN_TIME_BETWEEN_UPDATES_def)
  have b: "''um'' \<noteq> []" by simp
  have fm: "fetch_and_merge office_printer ''um'' =
      (Inr (dict_update (dict_update [(''status'', PStr ''printing'')]
              [(''name'', PStr ''benchy''), (''progress'', PFloat 0.37)]) [(''name'', PStr ''um-s5'')]),
       [url_printer ''um'', url_print_job ''um'', url_system ''um''])"
    by (intro fetch_and_merge_all fetch_data_Json office_printer_simps)
  note run = async_update_run [OF h b nt fm, of 10100007]
  have 3: "snd (snd (async_update office_printer 10100000 10100007 polled_once)) =
        [url_printer ''um'', url_print_job ''um'', url_system ''um'']"
    by (simp add: run)
  have "map_of (the (latest_data (fst (snd (async_update office_printer 10100000 10100007 polled_once)))))
          ''sampleTime'' = Some (PTime 10100007)"
    by (simp add: run latest_data_def map_of_dict_setitem)
  moreover have "map_of (the (latest_data polled_once)) ''sampleTime'' = Some (PTime 7)"
    by (simp add: d)
  ultimately have 4: "latest_data (fst (snd (async_update office_printer 10100000 10100007 polled_once)))
        \<noteq> latest_data polled_once"
    by auto
  from 1 2 3 4 show ?thesis by (intro conjI)
qed

section \<open>A sensor without a snapshot\<close>

text \<open>
  Claim C10.  When the snapshot a sensor's update hook reads from the data source
  (after the hook's own call of the refresh) is \<^verbatim>\<open>None\<close>, the hook returns without
  an exception and the sensor is exactly as it was: its state and its last-updated
  time are unchanged.
\<close>

theorem no_snapshot_no_change:
  assumes "sensor_async_update net now stamp s ds = (r, ds', reqs)"
    and "latest_data ds' = None"
  shows "r = Inr s"
proof -
  obtain e d q where au: "async_update net now stamp ds = (e, d, q)"
    by (cases "async_update net now stamp ds") auto
  with async_update_no_error [of net now stamp ds] have "e = None" by simp
  with au assms show ?thesis by (auto simp: sensor_async_update_def update_from_def)
qed

text \<open>
  Claim C10 for a freshly constructed sensor on a data source without a host: state
  and last-updated time are both still \<^verbatim>\<open>None\<close>.
\<close>

theorem no_snapshot_no_change_witness:
  "fst (sensor_async_update offline 0 7
          (init_sensor ''Printer status'' ''status'' [] ''mdi:printer-3d'' 2) (init_data None)) =
     Inr (init_sensor ''Printer status'' ''status'' [] ''mdi:printer-3d'' 2)
   \<and> s_state (init_sensor ''Printer status'' ''status'' [] ''mdi:printer-3d'' 2) = PNone
   \<and> s_last_updated (init_sensor ''Printer status'' ''status'' [] ''mdi:printer-3d'' 2) = PNone"
proof -
  let ?s = "init_sensor ''Printer status'' ''status'' [] ''mdi:printer-3d'' 2"
  have au: "async_update offline 0 7 (init_data None) = (None, init_data None\<lparr>last_call := Some 0\<rparr>, [])"
    by (simp add: async_update_def async_update_body_def init_data_def throttled_def host_truthy_def)
  have a: "sensor_async_update offline 0 7 ?s (init_data None) =
     (fst (sensor_async_update offline 0 7 ?s (init_data None)),
      init_data None\<lparr>last_call := Some 0\<rparr>, [])"
    by (simp add: sensor_async_update_def au)
  have n: "latest_data (init_data None\<lparr>last_call := Some 0\<rparr>) = None"
    by (simp add: latest_data_def init_data_def)
  show ?thesis
    using no_snapshot_no_change [OF a n] by (simp add: init_sensor_def)
qed

section \<open>The walk to an extruder\<close>

text \<open>
  Claim C3 does not hold of the code.  The walk \<^verbatim>\<open>data.get("heads", [None])[0]\<close>,
  \<^verbatim>\<open>head["extruders"][idx]\<close>, \<^verbatim>\<open>extruder["hotend"]\<close> guards only against an
  absent \<^verbatim>\<open>heads\<close> key and a false hotend.  A second-extruder metric on a printer
  with one extruder and any extruder metric on an empty list of heads raise
  \<^verbatim>\<open>IndexError\<close>; an extruder without the \<^verbatim>\<open>hotend\<close> or
  \<^verbatim>\<open>active_material\<close> key raises \<^verbatim>\<open>KeyError\<close>.
\<close>

theorem extruder_walk_raises:
  "update_from (metric_sensor ''hotend_2_temperature'') (Some single_extruder) = Inl IndexError
   \<and> update_from (metric_sensor ''active_material_2_guid'') (Some single_extruder) = Inl IndexError
   \<and> update_from (metric_sensor ''hotend_1_temperature'') (Some no_heads) = Inl IndexError
   \<and> update_from (metric_sensor ''active_material_1_length_remaining'') (Some no_heads) = Inl IndexError
   \<and> update_from (metric_sensor ''hotend_1_id'') (Some bare_extruder) = Inl KeyError
   \<and> update_from (metric_sensor ''active_material_1_guid'') (Some bare_extruder) = Inl KeyError"
  by (intro conjI raise1 raise2 raise3 raise4 raise5 raise6)

section \<open>The translation of a material guid\<close>

text \<open>
  Claim C4, as amended.  For the metric \<^verbatim>\<open>active_material_N_guid\<close> (\<open>N\<close> one or
  two, \<open>n = N - 1\<close>), when the walk through the first head and extruder \<open>n\<close> reaches
  a material whose guid is \<open>g\<close>: if an entry of the material table has the guid
  \<open>g\<close>, the sensor's value becomes the material and the color of the first such
  entry, joined by \<^verbatim>\<open> - \<close>, and nothing is raised; if no entry has it, the update
  raises (the \<^verbatim>\<open>StopIteration\<close> of \<^verbatim>\<open>next\<close>, which leaves the coroutine as a
  \<^verbatim>\<open>RuntimeError\<close>) and no value is produced.
\<close>

theorem guid_translation:
  assumes "s_type s = ''active_material_1_guid'' \<and> n = 0
         \<or> s_type s = ''active_material_2_guid'' \<and> n = 1"
    and "map_of d ''heads'' = Some (PList (PDict head # rest))"
    and "map_of head ''extruders'' = Some (PList extruders)"
    and "n < length extruders"
    and "extruders ! n = PDict extruder"
    and "map_of extruder ''active_material'' = Some (PDict active_material)"
    and "map_of active_material ''guid'' = Some g"
  shows "update_from s (Some d) =
     (case find (\<lambda>e. PStr (guid e) = g) MATERIAL_LIST of
        None \<Rightarrow> Inl RuntimeError
      | Some e \<Rightarrow> Inr (s\<lparr>s_last_updated := dict_get d ''sampleTime'' PNone,
                         s_state := PStr (material e @ '' - '' @ color e)\<rparr>))"
proof -
  have ne: "d \<noteq> []" "head \<noteq> []" "active_material \<noteq> []"
    using assms(2,3,7) by auto
  let ?s = "s\<lparr>s_last_updated := dict_get d ''sampleTime'' PNone\<rparr>"
  have ex: "extruder_of (s_type s) 2 (PDict head) = Inr (PDict extruder)"
    using assms(1,3,4,5)
    by (auto simp: extruder_of_def and_then_def list_index_def py_int_def digit_val_def split_on_def)
  have ty: "py_in ''guid'' (s_type s)" "\<not> py_in ''length_remaining'' (s_type s)"
    "s_type s \<noteq> ''status''" "s_type s \<noteq> ''state''" "s_type s \<noteq> ''progress''"
    "\<not> py_in ''bed'' (s_type s)" "\<not> py_in ''hotend'' (s_type s)"
    "py_in ''active_material'' (s_type s)"
    using assms(1) by auto
  have "update_active_material ?s d =
      (case translate g of Inl e \<Rightarrow> Inl e | Inr v \<Rightarrow> Inr (?s\<lparr>s_state := v\<rparr>))"
    unfolding update_active_material_def
    using assms(2,6,7) ne ty(1,2)
    by (simp add: ex and_then_def dict_get_def list_index_def split: sum.splits)
  then have "update_metric ?s d =
      (case translate g of Inl e \<Rightarrow> Inl e | Inr v \<Rightarrow> Inr (?s\<lparr>s_state := v\<rparr>))"
    unfolding update_metric_def using ty(3-8) by simp
  then show ?thesis
    using ne(1)
    by (simp add: update_from_def translate_eq coroutine_error_def split: option.splits)
qed

text \<open>
  The amended claim C4 on the printer with one extruder, loaded with generic PLA.
\<close>

theorem guid_translation_witness:
  "update_from (metric_sensor ''active_material_1_guid'') (Some single_extruder) =
     Inr ((metric_sensor ''active_material_1_guid'')
            \<lparr>s_last_updated := PTime 7, s_state := PStr ''PLA - Generic''\<rparr>)"
proof -
  let ?am = "[(''guid'', PStr ''506c9f0d-e3aa-4bd4-b2d2-23e2425b1aa9''),
              (''length_remaining'', PInt 4500)]"
  let ?ex = "[(''hotend'', PDict [(''id'', PStr ''AA 0.4''),
                (''temperature'', PDict [(''current'', PFloat 200.5), (''target'', PFloat 210)])]),
              (''active_material'', PDict ?am)]"
  let ?head = "[(''extruders'', PList [PDict ?ex])]"
  have a: "s_type (metric_sensor ''active_material_1_guid'') = ''active_material_1_guid'' \<and> (0::nat) = 0
      \<or> s_type (metric_sensor ''active_material_1_guid'') = ''active_material_2_guid'' \<and> (0::nat) = 1"
    by (simp add: metric_sensor_def init_sensor_def)
  have b: "map_of single_extruder ''heads'' = Some (PList (PDict ?head # []))"
    by (simp add: single_extruder_def)
  have c: "map_of ?head ''extruders'' = Some (PList [PDict ?ex])" by simp
  have d: "0 < length [PDict ?ex]" by simp
  have e: "[PDict ?ex] ! 0 = PDict ?ex" by simp
  have f: "map_of ?ex ''active_material'' = Some (PDict ?am)" by simp
  have g: "map_of ?am ''guid'' = Some (PStr ''506c9f0d-e3aa-4bd4-b2d2-23e2425b1aa9'')" by simp
  have t: "dict_get single_extruder ''sampleTime'' PNone = PTime 7"
    by (simp add: dict_get_def single_extruder_def)
  show ?thesis
    using guid_translation [OF a b c d e f g]
    by (simp add: translate_PLA t)
qed

text \<open>
  Claim C4 as stated promises a sentinel value for a guid that is not in the table.
  For such a guid \<^verbatim>\<open>__translate\<close> raises \<^verbatim>\<open>StopIteration\<close> and the update of the
  sensor raises.
\<close>

theorem unknown_guid_counterexample:
  "translate (PStr ''00000000-0000-0000-0000-000000000000'') = Inl StopIteration
   \<and> update_from (metric_sensor ''active_material_1_guid'') (Some unknown_material) = Inl RuntimeError"
proof -
  have "update_from (metric_sensor ''active_material_1_guid'') (Some unknown_material) = Inl RuntimeError"
    by (simp add: walk_defs metric_sensor_def init_sensor_def unknown_material_def translate_unknown)
  then show ?thesis by (simp add: translate_unknown)
qed

section \<open>The bed metrics\<close>

text \<open>
  Claim C7, as amended.  For a snapshot in which the \<^verbatim>\<open>bed\<close> key is absent, or the
  bed object lacks the next object or field on the path of the metric, the update of a
  \<^verbatim>\<open>bed_temperature\<close>, \<^verbatim>\<open>bed_temperature_target\<close> or \<^verbatim>\<open>bed_type\<close> sensor
  raises nothing.  The value becomes \<^verbatim>\<open>None\<close> when the last field of the path is
  the one missing from a non-empty object; when the bed or the temperature object is
  absent or empty, the value the sensor held before is kept, which is \<^verbatim>\<open>None\<close> for
  a freshly constructed sensor.
\<close>

theorem bed_path_missing:
  assumes "d \<noteq> []"
    and "s_type s \<in> {''bed_temperature'', ''bed_temperature_target'', ''bed_type''}"
    and "map_of d ''bed'' = None
       \<or> (\<exists>b. map_of d ''bed'' = Some (PDict b) \<and>
            (if s_type s = ''bed_type'' then map_of b ''type'' = None
             else map_of b ''temperature'' = None
                \<or> (\<exists>t. map_of b ''temperature'' = Some (PDict t) \<and>
                     map_of t (if s_type s = ''bed_temperature_target'' then ''target''
                               else ''current'') = None)))"
  shows "update_from s (Some d) =
     Inr (s\<lparr>s_last_updated := dict_get d ''sampleTime'' PNone,
            s_state :=
              (if \<exists>b. map_of d ''bed'' = Some (PDict b) \<and> b \<noteq> [] \<and>
                    (s_type s = ''bed_type''
                     \<or> (\<exists>t. t \<noteq> [] \<and> map_of b ''temperature'' = Some (PDict t)))
               then PNone else s_state s)\<rparr>)"
proof -
  from assms(2) consider "s_type s = ''bed_temperature''" | "s_type s = ''bed_temperature_target''"
    | "s_type s = ''bed_type''" by auto
  then show ?thesis
  proof cases
    case 1
    with assms(1,3) show ?thesis
      by (auto simp: bed_defs split: option.splits)
  next
    case 2
    with assms(1,3) show ?thesis
      by (auto simp: bed_defs split: option.splits)
  next
    case 3
    with assms(1,3) show ?thesis
      by (auto simp: bed_defs split: option.splits)
  qed
qed

text \<open>
  The amended claim C7 for a fresh bed-temperature sensor on the snapshot of a
  printer that cannot be reached: the value is \<^verbatim>\<open>None\<close>.
\<close>

theorem bed_path_missing_witness:
  "update_from (metric_sensor ''bed_temperature'') (Some not_connected) =
     Inr ((metric_sensor ''bed_temperature'')\<lparr>s_last_updated := PTime 17, s_state := PNone\<rparr>)"
proof -
  have t: "s_type (metric_sensor ''bed_temperature'') \<in>
      {''bed_temperature'', ''bed_temperature_target'', ''bed_type''}"
    by (simp add: metric_sensor_def init_sensor_def)
  have m: "map_of not_connected ''bed'' = None
       \<or> (\<exists>b. map_of not_connected ''bed'' = Some (PDict b) \<and>
            (if s_type (metric_sensor ''bed_temperature'') = ''bed_type'' then map_of b ''type'' = None
             else map_of b ''temperature'' = None
                \<or> (\<exists>t. map_of b ''temperature'' = Some (PDict t) \<and>
                     map_of t (if s_type (metric_sensor ''bed_temperature'') = ''bed_temperature_target''
                               then ''target'' else ''current'') = None)))"
    by (simp add: not_connected_no_bed)
  show ?thesis
    using bed_path_missing [OF not_connected_no_bed(1) t m]
    by (simp add: not_connected_no_bed metric_sensor_def init_sensor_def)
qed

text \<open>
  Claim C7 as stated promises a null value whenever the \<^verbatim>\<open>bed\<close> key is absent.
  A bed-temperature sensor that has read 23.456 from one snapshot keeps that value
  when the next snapshot has no \<^verbatim>\<open>bed\<close> key.
\<close>

theorem stale_bed_temperature_counterexample:
  "update_from (metric_sensor ''bed_temperature'') (Some heated_bed) =
     Inr ((metric_sensor ''bed_temperature'')\<lparr>s_last_updated := PTime 7, s_state := PFloat 23.456\<rparr>)
   \<and> map_of not_connected ''bed'' = None
   \<and> update_from ((metric_sensor ''bed_temperature'')\<lparr>s_last_updated := PTime 7, s_state := PFloat 23.456\<rparr>)
        (Some not_connected) =
     Inr ((metric_sensor ''bed_temperature'')\<lparr>s_last_updated := PTime 17, s_state := PFloat 23.456\<rparr>)
   \<and> s_state ((metric_sensor ''bed_temperature'')\<lparr>s_last_updated := PTime 17, s_state := PFloat 23.456\<rparr>)
        \<noteq> PNone"
  by (simp add: bed_defs metric_sensor_def init_sensor_def heated_bed_def not_connected_def)

section \<open>Rounding at presentation\<close>

text \<open>
  Claim C8.  The value the host reads from a sensor is the stored value rounded to
  the configured number of decimals when the stored value is a float, and the stored
  value itself otherwise (a string passes through unchanged).  For a non-negative
  number of decimals the rounded value is a multiple of ten to the minus that number
  and lies within half such a unit of the stored value.  Rounding happens only in the
  reading: the update of a bed-temperature sensor stores the float of the snapshot
  as it is.
\<close>

theorem state_rounds_floats_only:
  "(s_state s = PFloat x \<longrightarrow> state s = PFloat (py_round x (s_decimal s)))
   \<and> (0 \<le> s_decimal s \<longrightarrow>
        (\<exists>k::int. py_round x (s_decimal s) = of_int k / 10 ^ nat (s_decimal s))
        \<and> \<bar>py_round x (s_decimal s) - x\<bar> \<le> 1 / (2 * 10 ^ nat (s_decimal s)))
   \<and> ((\<forall>y. s_state s \<noteq> PFloat y) \<longrightarrow> state s = s_state s)
   \<and> (s_type s = ''bed_temperature'' \<and> map_of d ''bed'' = Some (PDict b)
        \<and> map_of b ''temperature'' = Some (PDict t) \<and> map_of t ''current'' = Some (PFloat x) \<longrightarrow>
        (\<exists>s'. update_from s (Some d) = Inr s' \<and> s_state s' = PFloat x
              \<and> state s' = PFloat (py_round x (s_decimal s))))"
proof (intro conjI impI)
  assume "s_state s = PFloat x"
  then show "state s = PFloat (py_round x (s_decimal s))" by (simp add: state_def)
next
  assume "0 \<le> s_decimal s"
  then show "\<exists>k::int. py_round x (s_decimal s) = of_int k / 10 ^ nat (s_decimal s)"
    by (rule py_round_grid)
next
  assume "0 \<le> s_decimal s"
  then show "\<bar>py_round x (s_decimal s) - x\<bar> \<le> 1 / (2 * 10 ^ nat (s_decimal s))"
    by (rule py_round_close)
next
  assume "\<forall>y. s_state s \<noteq> PFloat y"
  then show "state s = s_state s" by (cases "s_state s") (simp_all add: state_def)
next
  assume a: "s_type s = ''bed_temperature'' \<and> map_of d ''bed'' = Some (PDict b)
        \<and> map_of b ''temperature'' = Some (PDict t) \<and> map_of t ''current'' = Some (PFloat x)"
  then have "update_from s (Some d) =
      Inr (s\<lparr>s_last_updated := dict_get d ''sampleTime'' PNone, s_state := PFloat x\<rparr>)"
    using bed_temperature_stored [of s d b t "PFloat x"] by simp
  then show "\<exists>s'. update_from s (Some d) = Inr s' \<and> s_state s' = PFloat x
              \<and> state s' = PFloat (py_round x (s_decimal s))"
    by (simp add: state_def)
qed

text \<open>
  Claim C8 with one decimal: a stored 23.456 reads 23.5 and stays 23.456, the string
  of a job state reads unchanged, the update from a snapshot stores 23.456; with the
  default of two decimals 23.456 reads 23.46.
\<close>

theorem state_rounds_floats_only_witness:
  "state ((init_sensor ''Bed'' ''bed_temperature'' ''C'' [] 1)\<lparr>s_state := PFloat 23.456\<rparr>) = PFloat 23.5
   \<and> s_state ((init_sensor ''Bed'' ''bed_temperature'' ''C'' [] 1)\<lparr>s_state := PFloat 23.456\<rparr>)
        = PFloat 23.456
   \<and> state ((init_sensor ''Job'' ''state'' [] [] 1)\<lparr>s_state := PStr ''pre print''\<rparr>) = PStr ''pre print''
   \<and> (\<exists>s'. update_from (init_sensor ''Bed'' ''bed_temperature'' ''C'' [] 1) (Some heated_bed) = Inr s'
          \<and> s_state s' = PFloat 23.456 \<and> state s' = PFloat 23.5)
   \<and> state ((metric_sensor ''bed_temperature'')\<lparr>s_state := PFloat 23.456\<rparr>) = PFloat 23.46"
proof -
  let ?b = "init_sensor ''Bed'' ''bed_temperature'' ''C'' [] 1"
  let ?j = "(init_sensor ''Job'' ''state'' [] [] 1)\<lparr>s_state := PStr ''pre print''\<rparr>"
  let ?m = "(metric_sensor ''bed_temperature'')\<lparr>s_state := PFloat 23.456\<rparr>"
  let ?t = "[(''current'', PFloat 23.456), (''target'', PFloat 60)]"
  let ?bed = "[(''temperature'', PDict ?t), (''type'', PStr ''glass'')]"
  have "state (?b\<lparr>s_state := PFloat 23.456\<rparr>) = PFloat (py_round 23.456 1)"
    using state_rounds_floats_only [of "?b\<lparr>s_state := PFloat 23.456\<rparr>" "23.456" heated_bed ?bed ?t]
    by (simp add: init_sensor_def)
  then have 1: "state (?b\<lparr>s_state := PFloat 23.456\<rparr>) = PFloat 23.5"
    by (simp only: py_round_example)
  have 2: "state ?j = PStr ''pre print''"
    using state_rounds_floats_only [of ?j 0 heated_bed ?bed ?t] by simp
  have "\<exists>s'. update_from ?b (Some heated_bed) = Inr s'
          \<and> s_state s' = PFloat 23.456 \<and> state s' = PFloat (py_round 23.456 1)"
    using state_rounds_floats_only [of ?b "23.456" heated_bed ?bed ?t]
    by (simp add: init_sensor_def heated_bed_path)
  then have 3: "\<exists>s'. update_from ?b (Some heated_bed) = Inr s'
          \<and> s_state s' = PFloat 23.456 \<and> state s' = PFloat 23.5"
    by (simp only: py_round_example)
  have "state ?m = PFloat (py_round 23.456 2)"
    using state_rounds_floats_only [of ?m "23.456" heated_bed ?bed ?t]
    by (simp add: metric_sensor_def init_sensor_def DEFAULT_DECIMAL_def)
  then have 4: "state ?m = PFloat 23.46"
    by (simp only: py_round_example)
  have 5: "s_state (?b\<lparr>s_state := PFloat 23.456\<rparr>) = PFloat 23.456" by simp
  from 1 2 3 4 5 show ?thesis by (intro conjI)
qed

section \<open>The progress metric\<close>

text \<open>
  Claim C9.  On a non-empty snapshot the update of a progress sensor raises nothing
  and stores the \<^verbatim>\<open>progress\<close> field multiplied by one hundred, for a float and for
  an integer field, and stores the integer zero when the field is absent.
\<close>

theorem progress_percentage:
  assumes "s_type s = ''progress''" and "d \<noteq> []"
  shows "(map_of d ''progress'' = Some (PFloat x) \<longrightarrow>
            update_from s (Some d) =
              Inr (s\<lparr>s_last_updated := dict_get d ''sampleTime'' PNone, s_state := PFloat (x * 100)\<rparr>))
       \<and> (map_of d ''progress'' = Some (PInt i) \<longrightarrow>
            update_from s (Some d) =
              Inr (s\<lparr>s_last_updated := dict_get d ''sampleTime'' PNone, s_state := PInt (i * 100)\<rparr>))
       \<and> (map_of d ''progress'' = None \<longrightarrow>
            update_from s (Some d) =
              Inr (s\<lparr>s_last_updated := dict_get d ''sampleTime'' PNone, s_state := PInt 0\<rparr>))"
  using assms by (auto simp: update_from_def update_metric_def dict_get_def and_then_def Let_def)

text \<open>
  Claim C9 at a progress of 0.37: the stored and the presented value are 37; and on
  the snapshot of a printer that cannot be reached the value is zero.
\<close>

theorem progress_percentage_witness:
  "update_from (metric_sensor ''progress'') (Some heated_bed) =
     Inr ((metric_sensor ''progress'')\<lparr>s_last_updated := PTime 7, s_state := PFloat 37\<rparr>)
   \<and> state ((metric_sensor ''progress'')\<lparr>s_last_updated := PTime 7, s_state := PFloat 37\<rparr>) = PFloat 37
   \<and> update_from (metric_sensor ''progress'') (Some not_connected) =
     Inr ((metric_sensor ''progress'')\<lparr>s_last_updated := PTime 17, s_state := PInt 0\<rparr>)"
proof -
  have t: "s_type (metric_sensor ''progress'') = ''progress''"
    by (simp add: metric_sensor_def init_sensor_def)
  have 1: "update_from (metric_sensor ''progress'') (Some heated_bed) =
     Inr ((metric_sensor ''progress'')\<lparr>s_last_updated := PTime 7, s_state := PFloat 37\<rparr>)"
    using progress_percentage [OF t heated_bed_path(2), of "0.37" 0]
    by (simp add: heated_bed_path)
  have 2: "update_from (metric_sensor ''progress'') (Some not_connected) =
     Inr ((metric_sensor ''progress'')\<lparr>s_last_updated := PTime 17, s_state := PInt 0\<rparr>)"
    using progress_percentage [OF t not_connected_no_bed(1), of 0 0]
    by (simp add: not_connected_no_bed) (simp add: not_connected_def)
  have 3: "state ((metric_sensor ''progress'')\<lparr>s_last_updated := PTime 7, s_state := PFloat 37\<rparr>) = PFloat 37"
    by (simp add: state_def metric_sensor_def init_sensor_def DEFAULT_DECIMAL_def py_round_example)
  from 1 2 3 show ?thesis by simp
qed

end
